theory Spec2Isabelle
  imports Complex_Main "HOL-Library.Multiset"
begin

section \<open>JSON values and the platform functions the handlers rely on\<close>

text \<open>
  The three TypeScript sources (the \<open>analyze-symptoms\<close> edge function, the symptom intake page
  and the dashboard page) exchange JSON values. A value of the datatype below is a JavaScript value
  as \<open>JSON.parse\<close> makes it. Strings are byte strings holding the UTF-8 encoding of the text; every
  operation the sources perform on strings (search for a brace, concatenation, comparison, test
  for emptiness) is the same on the encoding. A number is an IEEE double: \<open>JNum q\<close> is the finite
  double of value \<open>q\<close>, and \<open>JInfinity neg\<close> is the infinite one that a literal beyond the range of
  doubles gives (\<open>neg\<close> for its sign). An object is the list of its members in insertion order, a
  key occurring once; that JavaScript lists the keys that are array indices first plays no role
  below, where members are looked up by name.
\<close>

datatype json =
    JNull
  | JBool bool
  | JNum rat
  | JInfinity bool
  | JStr string
  | JArr "json list"
  | JObj "(string \<times> json) list"

text \<open>A JavaScript value read from a property is a JSON value or \<open>undefined\<close> (\<open>None\<close>).\<close>

type_synonym jsval = "json option"

subsection \<open>JSON.parse\<close>

text \<open>
  \<open>JSON.parse\<close> is a function of the platform. It is modelled as a parser of the JSON grammar of
  ECMAScript: white space is blank, tab, line feed and carriage return; a text is one value.
\<close>

definition is_ws :: "char \<Rightarrow> bool" where
  "is_ws c \<longleftrightarrow> c = CHR '' '' \<or> c = CHR 0x09 \<or> c = CHR 0x0A \<or> c = CHR 0x0D"

definition skip_ws :: "string \<Rightarrow> string" where
  "skip_ws s = dropWhile is_ws s"

text \<open>The place of a character in a string of distinct characters.\<close>

fun index_of :: "char \<Rightarrow> string \<Rightarrow> nat option" where
  "index_of c [] = None"
| "index_of c (d # ds) = (if c = d then Some 0 else map_option Suc (index_of c ds))"

definition digit_val :: "char \<Rightarrow> nat option" where
  "digit_val c = index_of c ''0123456789''"

definition hex_val :: "char \<Rightarrow> nat option" where
  "hex_val c =
     (case index_of c ''0123456789abcdef'' of
        Some d \<Rightarrow> Some d
      | None \<Rightarrow> map_option (\<lambda>d. d + 10) (index_of c ''ABCDEF''))"

definition is_digit :: "char \<Rightarrow> bool" where
  "is_digit c \<longleftrightarrow> digit_val c \<noteq> None"

text \<open>The value of a run of decimal digits, most significant first.\<close>

definition digits_val :: "string \<Rightarrow> nat" where
  "digits_val ds = foldl (\<lambda>n c. 10 * n + (case digit_val c of Some d \<Rightarrow> d | None \<Rightarrow> 0)) 0 ds"

text \<open>
  The double of a decimal literal. The literal is given as the quotient \<open>p / d\<close> of two natural
  numbers. \<open>floor_log2\<close> is its binary exponent, found from the lengths of \<open>p\<close> and \<open>d\<close> in bits;
  the exponent is at least -1022, where the doubles become subnormal. The quotient is rounded to
  a multiple of the unit in the last of the 53 places, to the nearest one and to the even one of
  two equally near. A result of \<open>2\<^sup>1\<^sup>0\<^sup>2\<^sup>4\<close> or more is no finite double (\<open>None\<close>).
\<close>

fun bit_length :: "nat \<Rightarrow> nat" where
  "bit_length n = (if n = 0 then 0 else Suc (bit_length (n div 2)))"

declare bit_length.simps [simp del]

definition floor_log2 :: "nat \<Rightarrow> nat \<Rightarrow> int" where
  "floor_log2 p d =
     (let c = int (bit_length p) - int (bit_length d)
      in if (if 0 \<le> c then d * 2 ^ nat c \<le> p else d \<le> p * 2 ^ nat (- c)) then c else c - 1)"

definition round_half_even :: "nat \<Rightarrow> nat \<Rightarrow> nat" where
  "round_half_even num den =
     (let q = num div den; r = num mod den
      in if 2 * r < den then q
         else if den < 2 * r then q + 1
         else if even q then q else q + 1)"

definition to_double :: "nat \<Rightarrow> nat \<Rightarrow> rat option" where
  "to_double p d =
     (if p = 0 then Some 0
      else
        (let e = max (floor_log2 p d) (- 1022);
             s = e - 52;
             n = (if 0 \<le> s then round_half_even p (d * 2 ^ nat s)
                  else round_half_even (p * 2 ^ nat (- s)) d);
             v = (if 0 \<le> s then of_nat n * 2 ^ nat s else of_nat n / 2 ^ nat (- s))
         in if 2 ^ 1024 \<le> v then None else Some v))"

text \<open>The number of sign \<open>neg\<close> and magnitude \<open>m \<times> 10\<^sup>k\<close>, as a double.\<close>

definition number_value :: "bool \<Rightarrow> nat \<Rightarrow> int \<Rightarrow> json" where
  "number_value neg m k =
     (case (if 0 \<le> k then to_double (m * 10 ^ nat k) 1 else to_double m (10 ^ nat (- k))) of
        None \<Rightarrow> JInfinity neg
      | Some v \<Rightarrow> JNum (if neg then - v else v))"

text \<open>
  A number literal: an optional minus, an integer part without a superfluous leading zero, an
  optional fraction and an optional exponent. The result is the double and the unread rest.
\<close>

definition parse_exponent :: "string \<Rightarrow> ((bool \<times> nat) \<times> string) option" where
  "parse_exponent s =
     (case s of
        [] \<Rightarrow> Some ((False, 0), s)
      | c # r \<Rightarrow>
          if c = CHR ''e'' \<or> c = CHR ''E'' then
            (let (neg, r1) = (case r of
                                [] \<Rightarrow> (False, r)
                              | d # r' \<Rightarrow> if d = CHR ''-'' then (True, r')
                                         else if d = CHR ''+'' then (False, r')
                                         else (False, r));
                 ds = takeWhile is_digit r1
             in if ds = [] then None else Some ((neg, digits_val ds), dropWhile is_digit r1))
          else Some ((False, 0), s))"

text \<open>The digits of the fraction, none when there is no point.\<close>

definition parse_fraction :: "string \<Rightarrow> (string \<times> string) option" where
  "parse_fraction s =
     (case s of
        [] \<Rightarrow> Some ([], s)
      | c # r \<Rightarrow>
          if c = CHR ''.'' then
            (let ds = takeWhile is_digit r
             in if ds = [] then None else Some (ds, dropWhile is_digit r))
          else Some ([], s))"

definition parse_number :: "string \<Rightarrow> (json \<times> string) option" where
  "parse_number s =
     (let (neg, s1) = (case s of
                         [] \<Rightarrow> (False, s)
                       | c # r \<Rightarrow> if c = CHR ''-'' then (True, r) else (False, s));
          ip = takeWhile is_digit s1
      in if ip = [] \<or> (hd ip = CHR ''0'' \<and> tl ip \<noteq> []) then None
         else
           (case parse_fraction (dropWhile is_digit s1) of
              None \<Rightarrow> None
            | Some (fp, s2) \<Rightarrow>
               (case parse_exponent s2 of
                  None \<Rightarrow> None
                | Some ((eneg, e), s3) \<Rightarrow>
                    Some (number_value neg (digits_val (ip @ fp))
                            ((if eneg then - int e else int e) - int (length fp)), s3))))"

text \<open>
  String literals. A \<open>\<bsol>uXXXX\<close> escape names a UTF-16 code unit; a high surrogate followed at
  once by an escaped low surrogate is one code point. The code point is stored in UTF-8 (a lone
  surrogate in the same three-byte form).
\<close>

definition utf8 :: "nat \<Rightarrow> string" where
  "utf8 cp =
     (if cp < 0x80 then [char_of cp]
      else if cp < 0x800 then [char_of (0xC0 + cp div 64), char_of (0x80 + cp mod 64)]
      else if cp < 0x10000 then
        [char_of (0xE0 + cp div 4096), char_of (0x80 + cp div 64 mod 64), char_of (0x80 + cp mod 64)]
      else
        [char_of (0xF0 + cp div 262144), char_of (0x80 + cp div 4096 mod 64),
         char_of (0x80 + cp div 64 mod 64), char_of (0x80 + cp mod 64)])"

definition hex4 :: "string \<Rightarrow> (nat \<times> string) option" where
  "hex4 s =
     (case s of
        a # b # c # d # r \<Rightarrow>
          (case (hex_val a, hex_val b, hex_val c, hex_val d) of
             (Some w, Some x, Some y, Some z) \<Rightarrow> Some (((w * 16 + x) * 16 + y) * 16 + z, r)
           | _ \<Rightarrow> None)
      | _ \<Rightarrow> None)"

definition low_surrogate :: "string \<Rightarrow> (nat \<times> string) option" where
  "low_surrogate s =
     (case s of
        a # b # r \<Rightarrow>
          if a = CHR 0x5C \<and> b = CHR ''u'' then
            (case hex4 r of
               Some (m, r') \<Rightarrow> if 0xDC00 \<le> m \<and> m \<le> 0xDFFF then Some (m, r') else None
             | None \<Rightarrow> None)
          else None
      | _ \<Rightarrow> None)"

definition unicode_escape :: "string \<Rightarrow> (string \<times> string) option" where
  "unicode_escape s =
     (case hex4 s of
        None \<Rightarrow> None
      | Some (n, r) \<Rightarrow>
          if 0xD800 \<le> n \<and> n \<le> 0xDBFF then
            (case low_surrogate r of
               Some (m, r') \<Rightarrow> Some (utf8 (0x10000 + (n - 0xD800) * 0x400 + (m - 0xDC00)), r')
             | None \<Rightarrow> Some (utf8 n, r))
          else Some (utf8 n, r))"

definition simple_escape :: "char \<Rightarrow> char option" where
  "simple_escape c =
     (if c = CHR 0x22 then Some (CHR 0x22)
      else if c = CHR 0x5C then Some (CHR 0x5C)
      else if c = CHR ''/'' then Some (CHR ''/'')
      else if c = CHR ''b'' then Some (CHR 0x08)
      else if c = CHR ''f'' then Some (CHR 0x0C)
      else if c = CHR ''n'' then Some (CHR 0x0A)
      else if c = CHR ''r'' then Some (CHR 0x0D)
      else if c = CHR ''t'' then Some (CHR 0x09)
      else None)"

text \<open>
  One step of a string body, after the opening quote: the closing quote, an escape, or an
  ordinary character (a control character is an error). \<open>SEnd\<close> carries the rest after the
  closing quote, \<open>SChars\<close> the decoded bytes and the rest still to scan.
\<close>

datatype str_step = SEnd string | SChars string string | SBad

definition string_step :: "char \<Rightarrow> string \<Rightarrow> str_step" where
  "string_step c cs =
     (if c = CHR 0x22 then SEnd cs
      else if c = CHR 0x5C then
        (case cs of
           [] \<Rightarrow> SBad
         | e # r \<Rightarrow>
             if e = CHR ''u'' then
               (case unicode_escape r of None \<Rightarrow> SBad | Some (bs, r') \<Rightarrow> SChars bs r')
             else (case simple_escape e of None \<Rightarrow> SBad | Some ch \<Rightarrow> SChars [ch] r))
      else if of_char c < (0x20 :: nat) then SBad
      else SChars [c] cs)"

function parse_string :: "string \<Rightarrow> (string \<times> string) option" where
  "parse_string [] = None"
| "parse_string (c # cs) =
     (case string_step c cs of
        SBad \<Rightarrow> None
      | SEnd r \<Rightarrow> Some ([], r)
      | SChars bs r \<Rightarrow>
          if length r \<le> length cs then
            (case parse_string r of None \<Rightarrow> None | Some (t, r') \<Rightarrow> Some (bs @ t, r'))
          else None)"
  by pat_completeness auto
termination
  by (relation "measure length") auto

text \<open>Storing a member: a key met again keeps its place and takes the new value.\<close>

fun set_member :: "string \<Rightarrow> json \<Rightarrow> (string \<times> json) list \<Rightarrow> (string \<times> json) list" where
  "set_member k v [] = [(k, v)]"
| "set_member k v ((k', v') # ms) =
     (if k = k' then (k, v) # ms else (k', v') # set_member k v ms)"

definition parse_literal :: "string \<Rightarrow> (json \<times> string) option" where
  "parse_literal s =
     (if take 4 s = ''true'' then Some (JBool True, drop 4 s)
      else if take 5 s = ''false'' then Some (JBool False, drop 5 s)
      else if take 4 s = ''null'' then Some (JNull, drop 4 s)
      else None)"

text \<open>
  Values, array elements and object members. Every call on the rest left by an inner value is
  guarded by a test that this rest is shorter than the text the value was read from; the lemma
  \<open>parse_value_shorter\<close> below shows that the test never fails.
\<close>

function parse_value :: "string \<Rightarrow> (json \<times> string) option"
  and parse_elements :: "string \<Rightarrow> json list \<Rightarrow> (json \<times> string) option"
  and parse_members :: "string \<Rightarrow> (string \<times> json) list \<Rightarrow> (json \<times> string) option"
where
  "parse_value [] = None"
| "parse_value (c # cs) =
     (if c = CHR ''{'' then
        (case skip_ws cs of
           [] \<Rightarrow> None
         | d # r \<Rightarrow> if d = CHR ''}'' then Some (JObj [], r) else parse_members (d # r) [])
      else if c = CHR ''['' then
        (case skip_ws cs of
           [] \<Rightarrow> None
         | d # r \<Rightarrow> if d = CHR '']'' then Some (JArr [], r) else parse_elements (d # r) [])
      else if c = CHR 0x22 then
        (case parse_string cs of None \<Rightarrow> None | Some (t, r) \<Rightarrow> Some (JStr t, r))
      else if c = CHR ''-'' \<or> is_digit c then parse_number (c # cs)
      else parse_literal (c # cs))"
| "parse_elements s acc =
     (case parse_value s of
        None \<Rightarrow> None
      | Some (v, r) \<Rightarrow>
          if length r < length s then
            (case skip_ws r of
               [] \<Rightarrow> None
             | d # r' \<Rightarrow>
                 if d = CHR '','' then parse_elements (skip_ws r') (acc @ [v])
                 else if d = CHR '']'' then Some (JArr (acc @ [v]), r')
                 else None)
          else None)"
| "parse_members s acc =
     (case s of
        [] \<Rightarrow> None
      | q # s1 \<Rightarrow>
          if q = CHR 0x22 then
            (case parse_string s1 of
               None \<Rightarrow> None
             | Some (k, r0) \<Rightarrow>
                 if length r0 \<le> length s1 then
                   (case skip_ws r0 of
                      [] \<Rightarrow> None
                    | col # r1 \<Rightarrow>
                        if col = CHR '':'' then
                          (case parse_value (skip_ws r1) of
                             None \<Rightarrow> None
                           | Some (v, r) \<Rightarrow>
                               if length r < length (skip_ws r1) then
                                 (case skip_ws r of
                                    [] \<Rightarrow> None
                                  | d # r' \<Rightarrow>
                                      if d = CHR '','' then
                                        parse_members (skip_ws r') (set_member k v acc)
                                      else if d = CHR ''}'' then
                                        Some (JObj (set_member k v acc), r')
                                      else None)
                               else None)
                        else None)
                 else None)
          else None)"
  by pat_completeness auto

lemma length_skip_ws: "length (skip_ws s) \<le> length s"
  by (simp add: skip_ws_def length_dropWhile_le)

lemma skip_ws_Cons_shorter: "skip_ws s = d # r \<Longrightarrow> length r < length s"
  using length_skip_ws [of s] by simp

termination parse_value
proof (relation "measure (\<lambda>x. case x of
           Inl s \<Rightarrow> 2 * length s
         | Inr (Inl (s, acc)) \<Rightarrow> 2 * length s + 1
         | Inr (Inr (s, acc)) \<Rightarrow> 2 * length s + 1)", goal_cases)
  case 1
  show ?case by simp
next
  case (2 c cs d r)
  then show ?case using skip_ws_Cons_shorter [of cs d r] by simp
next
  case (3 c cs d r)
  then show ?case using skip_ws_Cons_shorter [of cs d r] by simp
next
  case (4 s acc)
  show ?case by simp
next
  case (5 s acc x v r d r')
  then show ?case
    using skip_ws_Cons_shorter [of r d r'] length_skip_ws [of r'] by simp
next
  case (6 s acc q s1 x k r0 col r1)
  then show ?case
    using skip_ws_Cons_shorter [of r0 col r1] length_skip_ws [of r1] by simp
next
  case (7 s acc q s1 x k r0 col r1 y v r d r')
  then show ?case
    using skip_ws_Cons_shorter [of r0 col r1] length_skip_ws [of r1]
      skip_ws_Cons_shorter [of r d r'] length_skip_ws [of r'] by simp
qed

declare parse_elements.simps [simp del] parse_members.simps [simp del]

text \<open>\<open>JSON.parse\<close>: one value between optional white space, and nothing after it.\<close>

definition JSON_parse :: "string \<Rightarrow> json option" where
  "JSON_parse s =
     (case parse_value (skip_ws s) of
        None \<Rightarrow> None
      | Some (v, r) \<Rightarrow> if skip_ws r = [] then Some v else None)"


subsection \<open>Property access, truthiness and joining\<close>

text \<open>
  Exceptions are values. \<open>Error m\<close> is \<open>throw new Error(m)\<close>; the other three are raised by the
  runtime (reading a property of \<open>undefined\<close> or \<open>null\<close> or calling what is not a function, a
  failed \<open>JSON.parse\<close> or body read, a rejected \<open>fetch\<close>), and their message text is the engine's.
\<close>

datatype js_error = Error string | TypeError | SyntaxError | NetworkError

text \<open>
  Reading the property \<open>k\<close> of a value, for the member names the sources read (\<open>symptoms\<close>,
  \<open>choices\<close>, \<open>message\<close>, \<open>content\<close>, \<open>riskLevel\<close>): an object gives its member, any other value
  gives \<open>undefined\<close>, and reading from \<open>undefined\<close> or \<open>null\<close> throws.
\<close>

fun member :: "json \<Rightarrow> string \<Rightarrow> jsval" where
  "member (JObj ms) k = map_of ms k"
| "member v k = None"

fun get_prop :: "jsval \<Rightarrow> string \<Rightarrow> js_error + jsval" where
  "get_prop None k = Inl TypeError"
| "get_prop (Some JNull) k = Inl TypeError"
| "get_prop (Some v) k = Inr (member v k)"

text \<open>
  The first UTF-16 code unit of a string, in the encoding of the model: the first character, or
  the high surrogate of a first character outside the basic plane.
\<close>

definition first_unit :: "string \<Rightarrow> string" where
  "first_unit s =
     (case s of
        [] \<Rightarrow> []
      | b # r \<Rightarrow>
          let n = (of_char b :: nat) in
          if n < 0xC0 then [b]
          else if n < 0xE0 then take 2 s
          else if n < 0xF0 then take 3 s
          else
            (let cp = foldl (\<lambda>a c. a * 64 + (of_char c :: nat) mod 64) (n mod 8) (take 3 r)
             in utf8 (0xD800 + (cp - 0x10000) div 0x400)))"

text \<open>Reading the element \<open>[0]\<close> of a value.\<close>

fun get_index0 :: "jsval \<Rightarrow> js_error + jsval" where
  "get_index0 None = Inl TypeError"
| "get_index0 (Some JNull) = Inl TypeError"
| "get_index0 (Some (JArr xs)) = Inr (case xs of [] \<Rightarrow> None | x # _ \<Rightarrow> Some x)"
| "get_index0 (Some (JObj ms)) = Inr (map_of ms ''0'')"
| "get_index0 (Some (JStr s)) = Inr (if s = [] then None else Some (JStr (first_unit s)))"
| "get_index0 (Some v) = Inr None"

text \<open>
  Truthiness. A number is falsy when it is zero. For a double that is \<open>q = 0\<close>; the test is
  written so that it is also right for a decimal value not yet rounded, which rounds to zero
  exactly when its magnitude is at most \<open>2\<^sup>-\<^sup>1\<^sup>0\<^sup>7\<^sup>5\<close>, half of the least positive double.
\<close>

fun truthy_json :: "json \<Rightarrow> bool" where
  "truthy_json JNull = False"
| "truthy_json (JBool b) = b"
| "truthy_json (JNum q) = (\<not> \<bar>q\<bar> \<le> 1 / 2 ^ 1075)"
| "truthy_json (JInfinity neg) = True"
| "truthy_json (JStr s) = (s \<noteq> [])"
| "truthy_json (JArr xs) = True"
| "truthy_json (JObj ms) = True"

text \<open>
  \<open>JSON.stringify\<close> writes a value as text. What is kept is the value that this text denotes,
  that is, what a reader of the text gets: an infinite number is written \<open>null\<close>, a finite double
  is written with digits that give the same double back, and everything else is written as it is.
\<close>

primrec stringified :: "json \<Rightarrow> json" where
  "stringified JNull = JNull"
| "stringified (JBool b) = JBool b"
| "stringified (JNum q) = JNum q"
| "stringified (JInfinity neg) = JNull"
| "stringified (JStr s) = JStr s"
| "stringified (JArr xs) = JArr (map stringified xs)"
| "stringified (JObj ms) = JObj (map (map_prod id stringified) ms)"

text \<open>\<open>Array.prototype.join\<close> on strings.\<close>

fun join :: "string \<Rightarrow> string list \<Rightarrow> string" where
  "join sep [] = []"
| "join sep [x] = x"
| "join sep (x # y # ys) = x @ sep @ join sep (y # ys)"

text \<open>The decimal digits of a number, as a template literal prints an HTTP status.\<close>

fun show_nat :: "nat \<Rightarrow> string" where
  "show_nat n =
     (if n < 10 then [char_of (48 + n)] else show_nat (n div 10) @ [char_of (48 + n mod 10)])"

declare show_nat.simps [simp del]

section \<open>The Analysis Service: \<open>supabase/functions/analyze-symptoms/index.ts\<close>\<close>

text \<open>
  The handler is a function of what it reads: the request (its method and the outcome of
  \<open>await req.json()\<close>, \<open>None\<close> when the body is not JSON), the environment variable
  \<open>LOVABLE_API_KEY\<close>, and the outcome of the one \<open>fetch\<close> it may issue. It returns the HTTP
  response and the events it caused, in order.
\<close>

record request =
  req_method :: string
  req_json :: "json option"

text \<open>
  The upstream reply: its status and the outcome of \<open>await response.json()\<close> (\<open>None\<close> when the
  body is not JSON). A \<open>fetch\<close> that finds no server is rejected.
\<close>

record upstream_response =
  up_status :: nat
  up_json :: "json option"

datatype fetch_result = Rejected | Responded upstream_response

text \<open>
  A response body is absent, or a JSON text, kept as the value it denotes, or the object
  \<open>{error: m}\<close> for the engine's message \<open>m\<close> of a runtime error.
\<close>

datatype body = NoBody | JsonBody json | RuntimeErrorBody js_error

record response =
  status :: nat
  headers :: "(string \<times> string) list"
  body :: body

text \<open>
  Events: console output (the first argument of the call) and the upstream call, which carries
  the array whose elements are joined into the user message.
\<close>

datatype service_event = ConsoleLog string | ConsoleError string | Fetch "json list"

definition corsHeaders :: "(string \<times> string) list" where
  "corsHeaders =
     [(''Access-Control-Allow-Origin'', ''*''),
      (''Access-Control-Allow-Headers'', ''authorization, x-client-info, apikey, content-type'')]"

definition json_headers :: "(string \<times> string) list" where
  "json_headers = corsHeaders @ [(''Content-Type'', ''application/json'')]"

text \<open>\<open>new Response(JSON.stringify(v), { status: st, headers: ... })\<close>.\<close>

definition json_response :: "nat \<Rightarrow> json \<Rightarrow> response" where
  "json_response st v = \<lparr>status = st, headers = json_headers, body = JsonBody (stringified v)\<rparr>"

definition error_object :: "string \<Rightarrow> json" where
  "error_object m = JObj [(''error'', JStr m)]"

text \<open>The response of the outer \<open>catch\<close>: status 500 and \<open>{error: error.message}\<close>.\<close>

definition error_response :: "js_error \<Rightarrow> response" where
  "error_response e =
     (case e of
        Error m \<Rightarrow> json_response 500 (error_object m)
      | _ \<Rightarrow> \<lparr>status = 500, headers = json_headers, body = RuntimeErrorBody e\<rparr>)"

definition fallback :: json where
  "fallback =
     JObj
      [(''conditions'',
        JArr
         [JObj
           [(''name'', JStr ''Multiple Symptoms''),
            (''probability'', JNum 60),
            (''explanation'',
             JStr ''Based on the symptoms provided, we recommend consulting a healthcare professional for proper evaluation.'')]]),
       (''riskLevel'', JStr ''medium''),
       (''recommendations'',
        JArr
         [JStr ''Consult a healthcare professional'',
          JStr ''Monitor your symptoms'',
          JStr ''Stay hydrated and rest'']),
       (''disclaimer'',
        JStr ''This is not a medical diagnosis. Please consult a healthcare professional for proper evaluation.'')]"

text \<open>
  \<open>aiResponse.match(/\<bsol>{[\<bsol>s\<bsol>S]*\<bsol>}/)\<close>: the star is greedy and matches every character, so the match
  runs from the first opening brace to the last closing brace after it; there is none when the
  text has no opening brace or no closing brace after the first opening one.
\<close>

definition match_braces :: "string \<Rightarrow> string option" where
  "match_braces s =
     (let t = dropWhile (\<lambda>c. c \<noteq> CHR ''{'') s
      in if CHR ''}'' \<in> set t then Some (rev (dropWhile (\<lambda>c. c \<noteq> CHR ''}'') (rev t)))
         else None)"

text \<open>
  The inner \<open>try\<close> block (lines 88 to 95). Calling \<open>match\<close> on what is not a string throws, no
  match throws \<open>No JSON found in response\<close>, and \<open>JSON.parse\<close> throws on bad syntax.
\<close>

definition extract_analysis :: "jsval \<Rightarrow> js_error + json" where
  "extract_analysis aiResponse =
     (case aiResponse of
        Some (JStr s) \<Rightarrow>
          (case match_braces s of
             Some m \<Rightarrow> (case JSON_parse m of Some v \<Rightarrow> Inr v | None \<Rightarrow> Inl SyntaxError)
           | None \<Rightarrow> Inl (Error ''No JSON found in response''))
      | _ \<Rightarrow> Inl TypeError)"

text \<open>\<open>data.choices[0].message.content\<close> (line 82).\<close>

definition reply_content :: "json \<Rightarrow> js_error + jsval" where
  "reply_content data =
     (case get_prop (Some data) ''choices'' of
        Inl e \<Rightarrow> Inl e
      | Inr choices \<Rightarrow>
         (case get_index0 choices of
            Inl e \<Rightarrow> Inl e
          | Inr choice \<Rightarrow>
             (case get_prop choice ''message'' of
                Inl e \<Rightarrow> Inl e
              | Inr message \<Rightarrow> get_prop message ''content'')))"

definition response_ok :: "upstream_response \<Rightarrow> bool" where
  "response_ok r \<longleftrightarrow> 200 \<le> up_status r \<and> up_status r \<le> 299"

text \<open>Lines 60 to 120: what the handler does with the upstream reply.\<close>

definition handle_reply :: "upstream_response \<Rightarrow> (js_error + response) \<times> service_event list" where
  "handle_reply r =
     (if \<not> response_ok r then
        (if up_status r = 429 then
           Inr (json_response 429 (error_object ''Rate limit exceeded. Please try again later.''))
         else if up_status r = 402 then
           Inr (json_response 402 (error_object ''AI credits exhausted. Please add credits to continue.''))
         else Inl (Error (''AI gateway error: '' @ show_nat (up_status r))),
         [ConsoleError ''AI gateway error:''])
      else
        (case up_json r of
           None \<Rightarrow> (Inl SyntaxError, [])
         | Some data \<Rightarrow>
            (case reply_content data of
               Inl e \<Rightarrow> (Inl e, [])
             | Inr aiResponse \<Rightarrow>
                (case extract_analysis aiResponse of
                   Inr analysis \<Rightarrow>
                     (Inr (json_response 200 analysis), [ConsoleLog ''AI response:''])
                 | Inl parseError \<Rightarrow>
                     (Inr (json_response 200 fallback),
                      [ConsoleLog ''AI response:'', ConsoleError ''Failed to parse AI response:''])))))"

text \<open>
  Lines 14 to 55, up to the call of \<open>fetch\<close>: the request body is read and destructured, the
  credential is tested (\<open>undefined\<close> and the empty string are falsy), and the user message is
  built by \<open>symptoms.join\<close>, which only an array has. The result is the array that is joined.
\<close>

definition prepare :: "string option \<Rightarrow> request \<Rightarrow> (js_error + json list) \<times> service_event list" where
  "prepare key req =
     (case req_json req of
        None \<Rightarrow> (Inl SyntaxError, [])
      | Some b \<Rightarrow>
         (case get_prop (Some b) ''symptoms'' of
            Inl e \<Rightarrow> (Inl e, [])
          | Inr symptoms \<Rightarrow>
              if key = None \<or> key = Some [] then
                (Inl (Error ''LOVABLE_API_KEY is not configured''), [])
              else
                (case symptoms of
                   Some (JArr xs) \<Rightarrow> (Inr xs, [ConsoleLog ''Analyzing symptoms:''])
                 | _ \<Rightarrow> (Inl TypeError, [ConsoleLog ''Analyzing symptoms:'']))))"

text \<open>The outer \<open>try\<close> block.\<close>

definition try_block ::
  "string option \<Rightarrow> request \<Rightarrow> fetch_result \<Rightarrow> (js_error + response) \<times> service_event list" where
  "try_block key req upstream =
     (case prepare key req of
        (Inl e, evs) \<Rightarrow> (Inl e, evs)
      | (Inr xs, evs) \<Rightarrow>
         (case upstream of
            Rejected \<Rightarrow> (Inl NetworkError, evs @ [Fetch xs])
          | Responded r \<Rightarrow>
              (let (res, evs') = handle_reply r in (res, evs @ [Fetch xs] @ evs'))))"

definition serve ::
  "string option \<Rightarrow> request \<Rightarrow> fetch_result \<Rightarrow> response \<times> service_event list" where
  "serve key req upstream =
     (if req_method req = ''OPTIONS'' then
        (\<lparr>status = 200, headers = corsHeaders, body = NoBody\<rparr>, [])
      else
        (case try_block key req upstream of
           (Inr resp, evs) \<Rightarrow> (resp, evs)
         | (Inl e, evs) \<Rightarrow>
             (error_response e, evs @ [ConsoleError ''Error in analyze-symptoms:''])))"


section \<open>The Intake Handler: \<open>handleSubmit\<close> of the symptoms page\<close>

text \<open>
  The handler is a function of the form state (the selected labels and the notes) and of what
  the backend answers: the signed-in user, the outcome of the \<open>symptom_entries\<close> insert (an error
  or the identifier of the new row), the \<open>data\<close> and \<open>error\<close> of the function call, and a failure
  of the \<open>risk_assessments\<close> insert for a reason other than the constraint of the table. It
  returns the events it causes, in order.
\<close>

datatype api_error = ApiError string

record user =
  user_id :: string

record symptom_entry_insert =
  sei_user_id :: string
  sei_symptoms :: "string list"
  sei_notes :: "string option"

record risk_assessment_insert =
  rai_symptom_entry_id :: string
  rai_user_id :: string
  rai_predictions :: json
  rai_risk_level :: json

record backend =
  current_user :: "user option"
  entry_insert_result :: "api_error + string"
  analysis_data :: json
  analysis_error :: "api_error option"
  assessment_failure :: "api_error option"

text \<open>An insert event carries the row sent and the outcome.\<close>

datatype intake_event =
    PreventDefault
  | SetLoading bool
  | Navigate string
  | ToastError string
  | ToastSuccess string
  | UiConsoleError string
  | InsertSymptomEntry symptom_entry_insert "api_error + string"
  | InvokeAnalysis "string list"
  | InsertRiskAssessment risk_assessment_insert "api_error option"
  | SetAnalysisResult json

text \<open>
  The table of the migration: \<open>risk_level TEXT NOT NULL CHECK (risk_level IN ('low', 'medium',
  'high'))\<close>. A JSON string is stored as it is; a value that is not a string could only be stored
  as its JSON text, which is none of the three.
\<close>

definition risk_level_check :: "json \<Rightarrow> bool" where
  "risk_level_check v \<longleftrightarrow> v = JStr ''low'' \<or> v = JStr ''medium'' \<or> v = JStr ''high''"

definition check_violation :: api_error where
  "check_violation =
     ApiError ''new row for relation \"risk_assessments\" violates check constraint \"risk_assessments_risk_level_check\"''"

definition insert_risk_assessment :: "risk_assessment_insert \<Rightarrow> api_error option \<Rightarrow> api_error option" where
  "insert_risk_assessment row failure =
     (case failure of
        Some e \<Rightarrow> Some e
      | None \<Rightarrow> if risk_level_check (rai_risk_level row) then None else Some check_violation)"

text \<open>\<open>a || b\<close> for a property that may be \<open>undefined\<close>.\<close>

definition js_or :: "jsval \<Rightarrow> json \<Rightarrow> json" where
  "js_or a b = (case a of None \<Rightarrow> b | Some v \<Rightarrow> if truthy_json v then v else b)"

text \<open>The \<open>catch\<close> block: \<open>toast.error(error.message || "Failed to log symptoms")\<close>.\<close>

definition catch_submit :: "api_error \<Rightarrow> intake_event list" where
  "catch_submit e =
     [UiConsoleError ''Submit error:'',
      ToastError (case e of ApiError m \<Rightarrow> if m = [] then ''Failed to log symptoms'' else m)]"

text \<open>
  Lines 87 to 103: the analysis is truthy here, so it is not \<open>null\<close> and reading its
  \<open>riskLevel\<close> does not throw.
\<close>

definition save_assessment :: "string \<Rightarrow> user \<Rightarrow> json \<Rightarrow> api_error option \<Rightarrow> intake_event list" where
  "save_assessment entry_id u analysis failure =
     (let row = \<lparr>rai_symptom_entry_id = entry_id, rai_user_id = user_id u,
                 rai_predictions = analysis,
                 rai_risk_level = js_or (member analysis ''riskLevel'') (JStr ''medium'')\<rparr>;
          assessmentError = insert_risk_assessment row failure
      in InsertRiskAssessment row assessmentError #
         (if assessmentError \<noteq> None then [UiConsoleError ''Assessment error:''] else []) @
         [SetAnalysisResult analysis])"

definition handleSubmit :: "string list \<Rightarrow> string \<Rightarrow> backend \<Rightarrow> intake_event list" where
  "handleSubmit selectedSymptoms notes w =
     PreventDefault #
     (if selectedSymptoms = [] then [ToastError ''Please select at least one symptom'']
      else
        SetLoading True #
        (case current_user w of
           None \<Rightarrow> [Navigate ''/auth'']
         | Some u \<Rightarrow>
            (let row = \<lparr>sei_user_id = user_id u, sei_symptoms = selectedSymptoms,
                        sei_notes = (if notes = [] then None else Some notes)\<rparr>
             in InsertSymptomEntry row (entry_insert_result w) #
                (case entry_insert_result w of
                   Inl symptomError \<Rightarrow> catch_submit symptomError
                 | Inr entry_id \<Rightarrow>
                     InvokeAnalysis selectedSymptoms #
                     (case analysis_error w of
                        Some analysisError \<Rightarrow>
                          [UiConsoleError ''Analysis error:'', ToastError ''Failed to get AI analysis'']
                      | None \<Rightarrow>
                          if truthy_json (analysis_data w) then
                            save_assessment entry_id u (analysis_data w) (assessment_failure w)
                          else []) @
                     [ToastSuccess ''Symptoms logged successfully!'']))) @
        [SetLoading False])"

section \<open>The dashboard: \<open>fetchDashboardData\<close> and \<open>exportData\<close>\<close>

text \<open>
  A creation time is an instant, counted in microseconds. The JSONB column \<open>symptoms\<close> holds
  what \<open>handleSubmit\<close> writes, an array of labels, and the page reads it under that type; a stored
  value that is not an array is \<open>None\<close>.
\<close>

record symptom_entries_row =
  row_id :: string
  row_symptoms :: "string list option"
  row_notes :: "string option"
  row_created_at :: nat

record SymptomEntry =
  entry_id :: string
  entry_symptoms :: "string list"
  entry_notes :: "string option"
  entry_created_at :: nat

record RiskAssessment =
  ra_id :: string
  ra_predictions :: json
  ra_risk_level :: string
  ra_created_at :: nat
  ra_symptom_entry_id :: string

record dashboard =
  symptomEntries :: "SymptomEntry list"
  riskAssessments :: "RiskAssessment list"
  loading :: bool

definition initial_dashboard :: dashboard where
  "initial_dashboard = \<lparr>symptomEntries = [], riskAssessments = [], loading = True\<rparr>"

datatype dashboard_event = DashNavigate string | DashToastError string | DashToastSuccess string

text \<open>
  \<open>.select("*").order("created_at", { ascending: false }).limit(10)\<close> on the rows the caller may
  read: newest first, the first ten. Rows with equal creation times keep the reverse of their
  table order here; the database leaves their order open.
\<close>

definition recent10 :: "('a \<Rightarrow> nat) \<Rightarrow> 'a list \<Rightarrow> 'a list" where
  "recent10 created rows = take 10 (rev (sort_key created rows))"

record 'a query_result =
  qr_data :: "'a list option"
  qr_error :: "api_error option"

definition run_query :: "api_error option \<Rightarrow> ('a \<Rightarrow> nat) \<Rightarrow> 'a list \<Rightarrow> 'a query_result" where
  "run_query failure created rows =
     (case failure of
        Some e \<Rightarrow> \<lparr>qr_data = None, qr_error = Some e\<rparr>
      | None \<Rightarrow> \<lparr>qr_data = Some (recent10 created rows), qr_error = None\<rparr>)"

definition typed_entry :: "symptom_entries_row \<Rightarrow> SymptomEntry" where
  "typed_entry row =
     \<lparr>entry_id = row_id row,
      entry_symptoms = (case row_symptoms row of Some labels \<Rightarrow> labels | None \<Rightarrow> []),
      entry_notes = row_notes row,
      entry_created_at = row_created_at row\<rparr>"

definition load_failed :: "api_error \<Rightarrow> dashboard_event list" where
  "load_failed e =
     [DashToastError (case e of ApiError m \<Rightarrow> if m = [] then ''Failed to load dashboard data'' else m)]"

text \<open>
  The inputs are the signed-in user, a failure of either query, and the rows of the two tables
  that the caller may read.
\<close>

definition fetchDashboardData ::
  "user option \<Rightarrow> api_error option \<Rightarrow> api_error option \<Rightarrow> symptom_entries_row list \<Rightarrow>
   RiskAssessment list \<Rightarrow> dashboard \<Rightarrow> dashboard \<times> dashboard_event list" where
  "fetchDashboardData usr fail_entries fail_assessments entries_table assessments_table st =
     (case usr of
        None \<Rightarrow> (st\<lparr>loading := False\<rparr>, [DashNavigate ''/auth''])
      | Some u \<Rightarrow>
         (let symptomsResult = run_query fail_entries row_created_at entries_table;
              assessmentsResult = run_query fail_assessments ra_created_at assessments_table
          in case qr_error symptomsResult of
               Some e \<Rightarrow> (st\<lparr>loading := False\<rparr>, load_failed e)
             | None \<Rightarrow>
                (case qr_error assessmentsResult of
                   Some e \<Rightarrow> (st\<lparr>loading := False\<rparr>, load_failed e)
                 | None \<Rightarrow>
                    (\<lparr>symptomEntries =
                        map typed_entry (case qr_data symptomsResult of Some d \<Rightarrow> d | None \<Rightarrow> []),
                      riskAssessments =
                        (case qr_data assessmentsResult of Some d \<Rightarrow> d | None \<Rightarrow> []),
                      loading = False\<rparr>, []))))"

text \<open>
  \<open>exportData\<close>. The rendering of a date in the locale of the browser is a parameter, and so is
  the ISO text of the current time; \<open>split('T')[0]\<close> is the text before the first \<open>T\<close>.
\<close>

definition quoted :: "string \<Rightarrow> string" where
  "quoted s = [CHR 0x22] @ s @ [CHR 0x22]"

definition csv_row ::
  "(nat \<Rightarrow> string) \<Rightarrow> RiskAssessment list \<Rightarrow> SymptomEntry \<Rightarrow> string" where
  "csv_row toLocaleDateString assessments entry =
     (let assessment = find (\<lambda>a. ra_symptom_entry_id a = entry_id entry) assessments
      in join '',''
          [toLocaleDateString (entry_created_at entry),
           quoted (join '', '' (entry_symptoms entry)),
           (case assessment of
              None \<Rightarrow> ''N/A''
            | Some a \<Rightarrow> if ra_risk_level a = [] then ''N/A'' else ra_risk_level a),
           quoted (case entry_notes entry of None \<Rightarrow> [] | Some n \<Rightarrow> n)])"

definition csv_lines :: "(nat \<Rightarrow> string) \<Rightarrow> dashboard \<Rightarrow> string list" where
  "csv_lines toLocaleDateString st =
     join '','' [''Date'', ''Symptoms'', ''Risk Level'', ''Notes''] #
     map (csv_row toLocaleDateString (riskAssessments st)) (symptomEntries st)"



text \<open>The totals shown on the cards \<open>Total Entries\<close> and \<open>Assessments\<close>.\<close>

definition total_entries :: "dashboard \<Rightarrow> nat" where
  "total_entries st = length (symptomEntries st)"

definition total_assessments :: "dashboard \<Rightarrow> nat" where
  "total_assessments st = length (riskAssessments st)"


section \<open>What the specification speaks of\<close>

text \<open>
  The shape of the response body in section 8 of the specification, in its words: an object
  whose \<open>riskLevel\<close> is \<open>low\<close>, \<open>medium\<close> or \<open>high\<close> and whose \<open>conditions\<close> is a list of at most
  three entries, the \<open>probability\<close> of each a number from 0 to 100.
\<close>

definition probability_ok :: "json \<Rightarrow> bool" where
  "probability_ok c =
     (case member c ''probability'' of Some (JNum p) \<Rightarrow> 0 \<le> p \<and> p \<le> 100 | _ \<Rightarrow> False)"

definition risk_level_ok :: "json \<Rightarrow> bool" where
  "risk_level_ok v =
     (case member v ''riskLevel'' of
        Some (JStr r) \<Rightarrow> r = ''low'' \<or> r = ''medium'' \<or> r = ''high''
      | _ \<Rightarrow> False)"

definition spec_assessment_shape :: "json \<Rightarrow> bool" where
  "spec_assessment_shape v \<longleftrightarrow>
     risk_level_ok v \<and>
     (case member v ''conditions'' of
        Some (JArr cs) \<Rightarrow> length cs \<le> 3 \<and> list_all probability_ok cs
      | _ \<Rightarrow> False)"

text \<open>
  The full shape of the contract (section 4.1 of the specification): in addition every condition
  has a \<open>name\<close> and an \<open>explanation\<close>, \<open>recommendations\<close> is a list of strings and \<open>disclaimer\<close> a
  string.
\<close>

definition is_string :: "jsval \<Rightarrow> bool" where
  "is_string v = (case v of Some (JStr s) \<Rightarrow> True | _ \<Rightarrow> False)"

definition condition_shape :: "json \<Rightarrow> bool" where
  "condition_shape c \<longleftrightarrow>
     is_string (member c ''name'') \<and> probability_ok c \<and> is_string (member c ''explanation'')"

definition spec_expected_shape :: "json \<Rightarrow> bool" where
  "spec_expected_shape v \<longleftrightarrow>
     risk_level_ok v \<and>
     (case member v ''conditions'' of
        Some (JArr cs) \<Rightarrow> length cs \<le> 3 \<and> list_all condition_shape cs
      | _ \<Rightarrow> False) \<and>
     (case member v ''recommendations'' of
        Some (JArr rs) \<Rightarrow> list_all (\<lambda>r. is_string (Some r)) rs
      | _ \<Rightarrow> False) \<and>
     is_string (member v ''disclaimer'')"

text \<open>
  The span that the specification describes for step 5, the first balanced \<open>{...}\<close> span: from
  the leftmost opening brace whose closing brace exists, up to that closing brace. It follows
  the words of the specification, to be compared with \<open>match_braces\<close>, which follows the code.
\<close>

fun spec_balanced_rest :: "nat \<Rightarrow> string \<Rightarrow> string option" where
  "spec_balanced_rest d [] = None"
| "spec_balanced_rest d (c # cs) =
     (if c = CHR ''{'' then map_option ((#) c) (spec_balanced_rest (Suc d) cs)
      else if c = CHR ''}'' then
        (if d = 0 then Some [c] else map_option ((#) c) (spec_balanced_rest (d - 1) cs))
      else map_option ((#) c) (spec_balanced_rest d cs))"

fun spec_first_balanced_span :: "string \<Rightarrow> string option" where
  "spec_first_balanced_span [] = None"
| "spec_first_balanced_span (c # cs) =
     (if c = CHR ''{'' then
        (case spec_balanced_rest 0 cs of
           Some m \<Rightarrow> Some (c # m)
         | None \<Rightarrow> spec_first_balanced_span cs)
      else spec_first_balanced_span cs)"




text \<open>Events of the intake handler by kind.\<close>

fun is_entry_insert :: "intake_event \<Rightarrow> bool" where
  "is_entry_insert (InsertSymptomEntry row res) = True"
| "is_entry_insert e = False"

fun is_invoke :: "intake_event \<Rightarrow> bool" where
  "is_invoke (InvokeAnalysis labels) = True"
| "is_invoke e = False"

section \<open>Inputs used in the examples\<close>

text \<open>A request of the HTTP contract, \<open>POST\<close> with the body \<open>{symptoms: labels}\<close>.\<close>

definition analysis_request :: "string list \<Rightarrow> request" where
  "analysis_request labels =
     \<lparr>req_method = ''POST'', req_json = Some (JObj [(''symptoms'', JArr (map JStr labels))])\<rparr>"

text \<open>A chat-completion reply whose first choice carries the text \<open>text\<close>.\<close>

definition chat_reply :: "nat \<Rightarrow> string \<Rightarrow> upstream_response" where
  "chat_reply st text =
     \<lparr>up_status = st,
      up_json = Some (JObj [(''choices'',
                  JArr [JObj [(''message'',
                    JObj [(''role'', JStr ''assistant''), (''content'', JStr text)])]])])\<rparr>"

definition greedy_reply :: string where
  "greedy_reply =
     ''{\"conditions\":[],\"riskLevel\":\"low\",\"recommendations\":[],\"disclaimer\":\"x\"} (see {notes})''"

definition greedy_reply_object :: json where
  "greedy_reply_object =
     JObj [(''conditions'', JArr []), (''riskLevel'', JStr ''low''),
           (''recommendations'', JArr []), (''disclaimer'', JStr ''x'')]"

text \<open>
  Backends of the intake handler: nobody signed in; a signed-in user whose inserts and function
  call succeed but for the given failure of the second insert; a signed-in user whose first
  insert is refused.
\<close>

definition signed_out :: backend where
  "signed_out =
     \<lparr>current_user = None, entry_insert_result = Inr ''entry-1'', analysis_data = fallback,
      analysis_error = None, assessment_failure = None\<rparr>"

definition signed_in :: "json \<Rightarrow> api_error option \<Rightarrow> backend" where
  "signed_in analysis failure =
     \<lparr>current_user = Some \<lparr>user_id = ''user-1''\<rparr>, entry_insert_result = Inr ''entry-1'',
      analysis_data = analysis, analysis_error = None, assessment_failure = failure\<rparr>"

definition insert_refused :: backend where
  "insert_refused =
     \<lparr>current_user = Some \<lparr>user_id = ''user-1''\<rparr>,
      entry_insert_result = Inl (ApiError ''permission denied''),
      analysis_data = fallback, analysis_error = None, assessment_failure = None\<rparr>"

text \<open>Twelve stored entries in no particular order, and what the dashboard holds of them.\<close>

definition sample_entries :: "symptom_entries_row list" where
  "sample_entries =
     map (\<lambda>(i, t). \<lparr>row_id = i, row_symptoms = Some [''Fever''], row_notes = None,
                      row_created_at = t\<rparr>)
       [(''c'', 3), (''l'', 12), (''a'', 1), (''g'', 7), (''e'', 5), (''k'', 11),
        (''b'', 2), (''i'', 9), (''d'', 4), (''j'', 10), (''f'', 6), (''h'', 8)]"

definition sample_loaded :: "SymptomEntry list" where
  "sample_loaded =
     map (\<lambda>(i, t). \<lparr>entry_id = i, entry_symptoms = [''Fever''], entry_notes = None,
                      entry_created_at = t\<rparr>)
       [(''l'', 12), (''k'', 11), (''j'', 10), (''i'', 9), (''h'', 8), (''g'', 7),
        (''f'', 6), (''e'', 5), (''d'', 4), (''c'', 3)]"



lemmas intake_eval = handleSubmit_def save_assessment_def insert_risk_assessment_def
  risk_level_check_def js_or_def catch_submit_def signed_in_def Let_def

lemmas service_eval = serve_def try_block_def prepare_def handle_reply_def response_ok_def
  reply_content_def extract_analysis_def match_braces_def analysis_request_def chat_reply_def
  json_response_def error_response_def error_object_def

lemmas text_eval = JSON_parse_def skip_ws_def is_ws_def is_digit_def digit_val_def
  parse_number_def parse_fraction_def parse_exponent_def digits_val_def
  string_step_def simple_escape_def parse_literal_def parse_elements.simps parse_members.simps
  Let_def

lemmas json_eval = text_eval number_value_def to_double_def floor_log2_def round_half_even_def
  bit_length.simps

section \<open>The parser consumes what it reads\<close>

text \<open>
  Every successful parse leaves a rest shorter than its input, so the length tests in
  \<open>parse_string\<close>, \<open>parse_elements\<close> and \<open>parse_members\<close> always succeed: the functions satisfy
  the equations without the tests.
\<close>

lemma hex4_shorter: "hex4 s = Some (n, r) \<Longrightarrow> length r < length s"
  by (auto simp: hex4_def split: list.splits option.splits)

lemma low_surrogate_shorter: "low_surrogate s = Some (m, r) \<Longrightarrow> length r < length s"
  by (auto simp: low_surrogate_def split: list.splits option.splits if_splits dest: hex4_shorter)

lemma unicode_escape_shorter: "unicode_escape s = Some (bs, r) \<Longrightarrow> length r < length s"
  by (auto simp: unicode_escape_def split: option.splits if_splits
      dest!: hex4_shorter low_surrogate_shorter)

lemma string_step_le: "string_step c cs = SChars bs r \<Longrightarrow> length r \<le> length cs"
  by (auto simp: string_step_def split: if_splits list.splits option.splits
      dest!: unicode_escape_shorter)

lemma parse_string_unguarded:
  "parse_string (c # cs) =
     (case string_step c cs of
        SBad \<Rightarrow> None
      | SEnd r \<Rightarrow> Some ([], r)
      | SChars bs r \<Rightarrow>
          (case parse_string r of None \<Rightarrow> None | Some (t, r') \<Rightarrow> Some (bs @ t, r')))"
  by (auto split: str_step.splits dest: string_step_le)

lemma parse_string_shorter: "parse_string s = Some (t, r) \<Longrightarrow> length r < length s"
proof (induction s arbitrary: t r rule: parse_string.induct)
  case 1
  then show ?case by simp
next
  case (2 c cs)
  show ?case
  proof (cases "string_step c cs")
    case (SEnd r0)
    with 2 show ?thesis by (auto simp: string_step_def split: if_splits list.splits option.splits)
  next
    case (SChars bs r0)
    have le: "length r0 \<le> length cs" using SChars by (rule string_step_le)
    from "2.prems" SChars le obtain t' where "parse_string r0 = Some (t', r)"
      by (auto split: option.splits)
    from "2.IH" [OF SChars le this] le show ?thesis by simp
  next
    case SBad
    with 2 show ?thesis by simp
  qed
qed

lemma parse_fraction_le: "parse_fraction s = Some (q, r) \<Longrightarrow> length r \<le> length s"
  using length_dropWhile_le [of is_digit "tl s"]
  by (auto simp: parse_fraction_def Let_def split: list.splits if_splits)

lemma parse_exponent_le: "parse_exponent s = Some (e, r) \<Longrightarrow> length r \<le> length s"
  using length_dropWhile_le [of is_digit "tl s"] length_dropWhile_le [of is_digit "tl (tl s)"]
  by (auto simp: parse_exponent_def Let_def split: list.splits if_splits prod.splits)

lemma dropWhile_shorter: "takeWhile P s \<noteq> [] \<Longrightarrow> length (dropWhile P s) < length s"
  by (cases s) (auto simp: le_imp_less_Suc length_dropWhile_le split: if_splits)

lemma parse_number_shorter:
  assumes a: "parse_number s = Some (v, r)"
  shows "length r < length s"
proof -
  obtain neg s1 where s1:
    "(case s of [] \<Rightarrow> (False, s)
      | c # r \<Rightarrow> if c = CHR ''-'' then (True, r) else (False, s)) = (neg, s1)"
    by fastforce
  then have l1: "length s1 \<le> length s" by (auto split: list.splits if_splits)
  from a s1 have ne: "takeWhile is_digit s1 \<noteq> []"
    by (auto simp: parse_number_def Let_def split: if_splits)
  from a s1 ne obtain fp s2 e where f: "parse_fraction (dropWhile is_digit s1) = Some (fp, s2)"
    and e: "parse_exponent s2 = Some (e, r)"
    by (auto simp: parse_number_def Let_def split: if_splits option.splits prod.splits)
  from dropWhile_shorter [OF ne] parse_fraction_le [OF f] parse_exponent_le [OF e] l1
  show ?thesis by simp
qed

lemma parse_literal_shorter: "parse_literal s = Some (v, r) \<Longrightarrow> length r < length s"
  by (cases s) (auto simp: parse_literal_def split: if_splits)

lemma parse_elements_SomeE:
  assumes "parse_elements s acc = Some (w, q)"
  obtains v r d r' where "parse_value s = Some (v, r)" "length r < length s" "skip_ws r = d # r'"
    "(d = CHR '','' \<and> parse_elements (skip_ws r') (acc @ [v]) = Some (w, q)) \<or>
     (d = CHR '']'' \<and> w = JArr (acc @ [v]) \<and> q = r')"
  using assms
  by (subst (asm) parse_elements.simps) (auto split: option.splits if_splits list.splits)

lemma parse_members_SomeE:
  assumes "parse_members s acc = Some (w, q)"
  obtains s1 k r0 r1 v r d r' where "s = CHR 0x22 # s1" "parse_string s1 = Some (k, r0)"
    "skip_ws r0 = CHR '':'' # r1" "parse_value (skip_ws r1) = Some (v, r)"
    "length r < length (skip_ws r1)" "skip_ws r = d # r'"
    "(d = CHR '','' \<and> parse_members (skip_ws r') (set_member k v acc) = Some (w, q)) \<or>
     (d = CHR ''}'' \<and> w = JObj (set_member k v acc) \<and> q = r')"
  using assms
  by (subst (asm) parse_members.simps) (auto split: option.splits if_splits list.splits)

lemma parse_shorter:
  "(parse_value s = Some (v, r) \<longrightarrow> length r < length s)"
  "(parse_elements s1 acc1 = Some (v1, r1) \<longrightarrow> length r1 < length s1)"
  "(parse_members s2 acc2 = Some (v2, r2) \<longrightarrow> length r2 < length s2)"
proof (induction s and s1 acc1 and s2 acc2 arbitrary: v r and v1 r1 and v2 r2
    rule: parse_value_parse_elements_parse_members.induct)
  case 1
  then show ?case by simp
next
  case (2 c cs)
  show ?case
  proof
    assume a: "parse_value (c # cs) = Some (v, r)"
    consider (obj) "c = CHR ''{''" | (arr) "c \<noteq> CHR ''{''" "c = CHR ''[''"
      | (other) "c \<noteq> CHR ''{''" "c \<noteq> CHR ''[''" by blast
    then show "length r < length (c # cs)"
    proof cases
      case obj
      with a obtain d r0 where sk: "skip_ws cs = d # r0"
        by (auto split: list.splits)
      show ?thesis
      proof (cases "d = CHR ''}''")
        case True
        with a obj sk have "r = r0" by simp
        with skip_ws_Cons_shorter [OF sk] show ?thesis by simp
      next
        case False
        with a obj sk have "parse_members (d # r0) [] = Some (v, r)" by simp
        with "2.IH"(1) [OF obj sk False] have "length r < length (d # r0)" by blast
        with skip_ws_Cons_shorter [OF sk] show ?thesis by simp
      qed
    next
      case arr
      with a obtain d r0 where sk: "skip_ws cs = d # r0"
        by (auto split: list.splits)
      show ?thesis
      proof (cases "d = CHR '']''")
        case True
        with a arr sk have "r = r0" by simp
        with skip_ws_Cons_shorter [OF sk] show ?thesis by simp
      next
        case False
        with a arr sk have "parse_elements (d # r0) [] = Some (v, r)" by simp
        with "2.IH"(2) [OF arr(1) arr(2) sk False] have "length r < length (d # r0)" by blast
        with skip_ws_Cons_shorter [OF sk] show ?thesis by simp
      qed
    next
      case other
      with a show ?thesis
        by (auto split: if_splits option.splits
            dest!: parse_string_shorter parse_number_shorter parse_literal_shorter)
    qed
  qed
next
  case (3 s acc)
  show ?case
  proof
    assume a: "parse_elements s acc = Some (v1, r1)"
    from a obtain v r d r' where pv: "parse_value s = Some (v, r)" and l: "length r < length s"
      and sk: "skip_ws r = d # r'"
      and alt: "(d = CHR '','' \<and> parse_elements (skip_ws r') (acc @ [v]) = Some (v1, r1)) \<or>
        (d = CHR '']'' \<and> v1 = JArr (acc @ [v]) \<and> r1 = r')"
      by (rule parse_elements_SomeE)
    from alt show "length r1 < length s"
    proof
      assume b: "d = CHR '','' \<and> parse_elements (skip_ws r') (acc @ [v]) = Some (v1, r1)"
      with "3.IH"(2) [OF pv refl l sk] have "length r1 < length (skip_ws r')" by blast
      with length_skip_ws [of r'] skip_ws_Cons_shorter [OF sk] l show ?thesis by simp
    next
      assume "d = CHR '']'' \<and> v1 = JArr (acc @ [v]) \<and> r1 = r'"
      with skip_ws_Cons_shorter [OF sk] l show ?thesis by simp
    qed
  qed
next
  case (4 s acc)
  show ?case
  proof
    assume a: "parse_members s acc = Some (v2, r2)"
    from a obtain s1 k r0 r1 v r d r' where s: "s = CHR 0x22 # s1"
      and ps: "parse_string s1 = Some (k, r0)"
      and sk0: "skip_ws r0 = CHR '':'' # r1" and pv: "parse_value (skip_ws r1) = Some (v, r)"
      and l: "length r < length (skip_ws r1)" and sk: "skip_ws r = d # r'"
      and alt: "(d = CHR '','' \<and> parse_members (skip_ws r') (set_member k v acc) = Some (v2, r2)) \<or>
        (d = CHR ''}'' \<and> v2 = JObj (set_member k v acc) \<and> r2 = r')"
      by (rule parse_members_SomeE)
    have l0: "length r0 < length s1" using ps by (rule parse_string_shorter)
    have chain: "length r' < length s"
      using s l0 skip_ws_Cons_shorter [OF sk0] length_skip_ws [of r1] l skip_ws_Cons_shorter [OF sk]
      by simp
    from alt show "length r2 < length s"
    proof
      assume b: "d = CHR '','' \<and> parse_members (skip_ws r') (set_member k v acc) = Some (v2, r2)"
      have "length r2 < length (skip_ws r')"
        using "4.IH"(2) [OF s _ ps refl _ sk0 _ pv refl l sk] l0 b by simp
      with length_skip_ws [of r'] chain show ?thesis by simp
    next
      assume "d = CHR ''}'' \<and> v2 = JObj (set_member k v acc) \<and> r2 = r'"
      with chain show ?thesis by simp
    qed
  qed
qed

lemma parse_elements_unguarded:
  "parse_elements s acc =
     (case parse_value s of
        None \<Rightarrow> None
      | Some (v, r) \<Rightarrow>
         (case skip_ws r of
            [] \<Rightarrow> None
          | d # r' \<Rightarrow>
              if d = CHR '','' then parse_elements (skip_ws r') (acc @ [v])
              else if d = CHR '']'' then Some (JArr (acc @ [v]), r')
              else None))"
  using parse_shorter(1) [of s]
  by (subst parse_elements.simps) (auto split: option.splits)

lemma parse_members_unguarded:
  "parse_members s acc =
     (case s of
        [] \<Rightarrow> None
      | q # s1 \<Rightarrow>
          if q = CHR 0x22 then
            (case parse_string s1 of
               None \<Rightarrow> None
             | Some (k, r0) \<Rightarrow>
                (case skip_ws r0 of
                   [] \<Rightarrow> None
                 | col # r1 \<Rightarrow>
                     if col = CHR '':'' then
                       (case parse_value (skip_ws r1) of
                          None \<Rightarrow> None
                        | Some (v, r) \<Rightarrow>
                           (case skip_ws r of
                              [] \<Rightarrow> None
                            | d # r' \<Rightarrow>
                                if d = CHR '','' then
                                  parse_members (skip_ws r') (set_member k v acc)
                                else if d = CHR ''}'' then Some (JObj (set_member k v acc), r')
                                else None))
                     else None))
          else None)"
  using parse_shorter(1) [of "skip_ws (tl (skip_ws (snd (the (parse_string (tl s))))))"]
    parse_string_shorter [of "tl s"]
  by (subst parse_members.simps) (auto split: option.splits list.splits)

text \<open>The parser on some texts: values of every kind, and texts that \<open>JSON.parse\<close> rejects.\<close>

lemma JSON_parse_accepts:
  "JSON_parse '' {\"a\": [1, -2.5, 3e2, true, false, null], \"b\": {\"c\": \"d\"}, \"a\": \"last\"} '' =
     Some (JObj [(''a'', JStr ''last''), (''b'', JObj [(''c'', JStr ''d'')])])"
  "JSON_parse ''[1, -2.5, 3e2, 25e-1, true, false, null, \"\"]'' =
     Some (JArr [JNum 1, JNum (- 5 / 2), JNum 300, JNum (5 / 2), JBool True, JBool False, JNull,
                 JStr []])"
  by (simp_all add: json_eval)

text \<open>
  Numbers are doubles: one tenth is the double nearest to it, an integer beyond \<open>2\<^sup>5\<^sup>3\<close> loses
  its last bit, and a literal beyond the range is infinite and is written \<open>null\<close>.
\<close>

lemma number_value_examples:
  "number_value False 1 (- 1) = JNum (3602879701896397 / 36028797018963968)"
  "number_value False 9007199254740993 0 = JNum 9007199254740992"
  "number_value True 0 0 = JNum 0"
  "number_value False 1 400 = JInfinity False"
  by (simp_all add: number_value_def to_double_def floor_log2_def round_half_even_def
      bit_length.simps Let_def)

lemma JSON_parse_numbers:
  "JSON_parse ''0.1'' = Some (JNum (3602879701896397 / 36028797018963968))"
  "JSON_parse ''9007199254740993'' = Some (JNum 9007199254740992)"
  "JSON_parse ''-0'' = Some (JNum 0)"
  "JSON_parse ''{\"p\":1e400}'' = Some (JObj [(''p'', JInfinity False)])"
  "stringified (JObj [(''p'', JInfinity False)]) = JObj [(''p'', JNull)]"
  by (simp_all add: text_eval number_value_examples [unfolded One_nat_def])

lemma JSON_parse_rounded_member:
  "JSON_parse ''{\"p\":9007199254740993}'' = Some (JObj [(''p'', JNum 9007199254740992)])"
  by (simp add: text_eval number_value_examples [unfolded One_nat_def])

lemma char_of_examples:
  "char_of (65::nat) = CHR ''A''" "char_of (0xC3::nat) = CHR 0xC3" "char_of (0xA9::nat) = CHR 0xA9"
  by code_simp+

lemma JSON_parse_escapes:
  "JSON_parse (''\"tab'' @ [CHR 0x5C] @ ''t'' @ [CHR 0x5C] @ ''u0041'' @ [CHR 0x5C] @ ''u00e9\"'') =
     Some (JStr (''tab'' @ [CHR 0x09] @ ''A'' @ [CHR 0xC3, CHR 0xA9]))"
  by (simp add: json_eval unicode_escape_def hex4_def hex_val_def utf8_def char_of_examples)

lemma JSON_parse_rejects:
  "JSON_parse [] = None"
  "JSON_parse ''{\"a\":1,}'' = None"
  "JSON_parse ''[1 2]'' = None"
  "JSON_parse ''{a:1}'' = None"
  "JSON_parse ''01'' = None"
  "JSON_parse ''1.'' = None"
  "JSON_parse ''{\"a\":1} {}'' = None"
  "JSON_parse ''nul'' = None"
  "JSON_parse ''\"open'' = None"
  by (simp_all add: json_eval)

section \<open>The Analysis Service: properties\<close>

lemma stringified_fallback [simp]: "stringified fallback = fallback"
  by (simp add: fallback_def)

lemma prepare_no_fetch: "Fetch xs \<notin> set (snd (prepare key req))"
  by (auto simp: prepare_def split: option.splits sum.splits json.splits)

lemma handle_reply_no_fetch: "Fetch xs \<notin> set (snd (handle_reply r))"
  by (auto simp: handle_reply_def split: option.splits sum.splits)

text \<open>The upstream call is made exactly when the request is not a preflight and passes lines 14 to 55.\<close>

lemma fetch_iff:
  "Fetch xs \<in> set (snd (serve key req upstream)) \<longleftrightarrow>
     req_method req \<noteq> ''OPTIONS'' \<and> fst (prepare key req) = Inr xs"
proof (cases "prepare key req")
  case (Pair res evs)
  have nf: "Fetch xs \<notin> set evs" using prepare_no_fetch [of xs key req] Pair by simp
  show ?thesis
  proof (cases res)
    case (Inl e)
    with Pair nf show ?thesis by (simp add: serve_def try_block_def)
  next
    case (Inr ys)
    show ?thesis
    proof (cases upstream)
      case Rejected
      with Pair Inr nf show ?thesis by (auto simp: serve_def try_block_def)
    next
      case (Responded r)
      obtain res' evs' where h: "handle_reply r = (res', evs')" by (cases "handle_reply r")
      then have nf': "Fetch xs \<notin> set evs'" using handle_reply_no_fetch [of xs r] by simp
      from Pair Inr Responded h nf nf' show ?thesis
        by (cases res') (auto simp: serve_def try_block_def)
    qed
  qed
qed

lemma serve_reply:
  assumes "Fetch xs \<in> set (snd (serve key req (Responded r)))"
  shows "fst (serve key req (Responded r)) =
           (case fst (handle_reply r) of Inr resp \<Rightarrow> resp | Inl e \<Rightarrow> error_response e)"
proof -
  from assms have m: "req_method req \<noteq> ''OPTIONS''" and p: "fst (prepare key req) = Inr xs"
    by (simp_all add: fetch_iff)
  obtain evs where "prepare key req = (Inr xs, evs)" using p by (cases "prepare key req") simp
  with m show ?thesis
    by (cases "handle_reply r") (auto simp: serve_def try_block_def split: sum.splits)
qed



text \<open>
  Claim C4. When the upstream call was made and answered with a status outside 200 to 299:
  status 429 gives status 429 with the body \<open>{error: "Rate limit exceeded. Please try again
  later."}\<close>, status 402 gives status 402 with the message of exhausted credits, and every other
  such status gives status 500 with a JSON error body (the message names the upstream status).
\<close>

theorem upstream_error_status:
  assumes "Fetch xs \<in> set (snd (serve key req (Responded r)))"
    and "\<not> response_ok r"
  shows "fst (serve key req (Responded r)) =
           (if up_status r = 429 then
              \<lparr>status = 429, headers = json_headers,
               body = JsonBody (JObj [(''error'', JStr ''Rate limit exceeded. Please try again later.'')])\<rparr>
            else if up_status r = 402 then
              \<lparr>status = 402, headers = json_headers,
               body = JsonBody (JObj [(''error'', JStr ''AI credits exhausted. Please add credits to continue.'')])\<rparr>
            else
              \<lparr>status = 500, headers = json_headers,
               body = JsonBody (JObj [(''error'', JStr (''AI gateway error: '' @ show_nat (up_status r)))])\<rparr>)"
  using serve_reply [OF assms(1)] assms(2)
  by (simp add: handle_reply_def json_response_def error_object_def error_response_def)

theorem upstream_error_status_witness:
  "Fetch [JStr ''Fever'']
     \<in> set (snd (serve (Some ''key'') (analysis_request [''Fever''])
                 (Responded \<lparr>up_status = 503, up_json = None\<rparr>))) \<and>
   \<not> response_ok \<lparr>up_status = 503, up_json = None\<rparr> \<and>
   fst (serve (Some ''key'') (analysis_request [''Fever''])
          (Responded \<lparr>up_status = 503, up_json = None\<rparr>)) =
     \<lparr>status = 500, headers = json_headers,
      body = JsonBody (JObj [(''error'', JStr ''AI gateway error: 503'')])\<rparr> \<and>
   \<not> response_ok \<lparr>up_status = 429, up_json = None\<rparr> \<and>
   fst (serve (Some ''key'') (analysis_request [''Fever''])
          (Responded \<lparr>up_status = 429, up_json = None\<rparr>)) =
     \<lparr>status = 429, headers = json_headers,
      body = JsonBody (JObj [(''error'', JStr ''Rate limit exceeded. Please try again later.'')])\<rparr> \<and>
   \<not> response_ok \<lparr>up_status = 402, up_json = None\<rparr> \<and>
   fst (serve (Some ''key'') (analysis_request [''Fever''])
          (Responded \<lparr>up_status = 402, up_json = None\<rparr>)) =
     \<lparr>status = 402, headers = json_headers,
      body = JsonBody (JObj [(''error'', JStr ''AI credits exhausted. Please add credits to continue.'')])\<rparr>"
proof -
  have h1: "Fetch [JStr ''Fever'']
     \<in> set (snd (serve (Some ''key'') (analysis_request [''Fever''])
                  (Responded \<lparr>up_status = st, up_json = None\<rparr>)))" for st
    by (simp add: fetch_iff prepare_def analysis_request_def)
  have h2: "\<not> response_ok \<lparr>up_status = 503, up_json = None\<rparr>"
    "\<not> response_ok \<lparr>up_status = 429, up_json = None\<rparr>"
    "\<not> response_ok \<lparr>up_status = 402, up_json = None\<rparr>"
    by (simp_all add: response_ok_def)
  have sn: "show_nat 503 = ''503''" by code_simp
  from upstream_error_status [OF h1 h2(1)] upstream_error_status [OF h1 h2(2)]
    upstream_error_status [OF h1 h2(3)] h1 [of 503] h2 sn
  show ?thesis by simp
qed


text \<open>
  Claim C6 as stated does not hold for every request. With the credential absent, a preflight
  request is answered with status 200 and no body, and a request whose body is not JSON fails at
  line 14, before the credential is looked at, with the message of that failure.
\<close>

theorem missing_credential_counterexample:
  "fst (serve None \<lparr>req_method = ''OPTIONS'', req_json = None\<rparr> Rejected) =
     \<lparr>status = 200, headers = corsHeaders, body = NoBody\<rparr> \<and>
   fst (serve None \<lparr>req_method = ''POST'', req_json = None\<rparr> Rejected) =
     \<lparr>status = 500, headers = json_headers, body = RuntimeErrorBody SyntaxError\<rparr>"
  by (simp add: service_eval)

text \<open>
  Claim C6, amended. With the credential absent no upstream call is made, whatever the request;
  and every request that is not a preflight and whose body is a JSON value other than \<open>null\<close>
  is failed with status 500 and the JSON error body that carries the configuration message.
\<close>

theorem missing_credential:
  "(\<forall>xs. Fetch xs \<notin> set (snd (serve None req upstream))) \<and>
   (req_method req \<noteq> ''OPTIONS'' \<longrightarrow> req_json req = Some b \<longrightarrow> b \<noteq> JNull \<longrightarrow>
      fst (serve None req upstream) =
        \<lparr>status = 500, headers = json_headers,
         body = JsonBody (JObj [(''error'', JStr ''LOVABLE_API_KEY is not configured'')])\<rparr>)"
proof -
  have 1: "\<And>xs. fst (prepare None req) \<noteq> Inr xs"
    by (auto simp: prepare_def split: option.splits sum.splits)
  have 2: "req_json req = Some b \<Longrightarrow> b \<noteq> JNull \<Longrightarrow>
      prepare None req = (Inl (Error ''LOVABLE_API_KEY is not configured''), [])"
    by (cases b) (auto simp: prepare_def split: option.splits sum.splits)
  have a: "\<forall>xs. Fetch xs \<notin> set (snd (serve None req upstream))"
    using 1 by (simp add: fetch_iff)
  have b: "req_method req \<noteq> ''OPTIONS'' \<longrightarrow> req_json req = Some b \<longrightarrow> b \<noteq> JNull \<longrightarrow>
      fst (serve None req upstream) =
        \<lparr>status = 500, headers = json_headers,
         body = JsonBody (JObj [(''error'', JStr ''LOVABLE_API_KEY is not configured'')])\<rparr>"
    using 2 by (simp add: serve_def try_block_def error_response_def json_response_def
        error_object_def)
  from a b show ?thesis by blast
qed

theorem missing_credential_witness:
  "req_method (analysis_request [''Fever'']) \<noteq> ''OPTIONS'' \<and>
   req_json (analysis_request [''Fever'']) = Some (JObj [(''symptoms'', JArr [JStr ''Fever''])]) \<and>
   JObj [(''symptoms'', JArr [JStr ''Fever''])] \<noteq> JNull \<and>
   fst (serve None (analysis_request [''Fever'']) (Responded (chat_reply 200 ''{}''))) =
     \<lparr>status = 500, headers = json_headers,
      body = JsonBody (JObj [(''error'', JStr ''LOVABLE_API_KEY is not configured'')])\<rparr> \<and>
   (\<forall>xs. Fetch xs \<notin> set (snd (serve None (analysis_request [''Fever''])
                                 (Responded (chat_reply 200 ''{}'')))))"
  using missing_credential [of "analysis_request [''Fever'']" "Responded (chat_reply 200 ''{}'')"
      "JObj [(''symptoms'', JArr [JStr ''Fever''])]"]
  by (simp add: analysis_request_def)

text \<open>
  Numbers reach the caller as doubles: a literal of the reply that no double holds is rounded,
  and one beyond the range of the doubles is written \<open>null\<close>.
\<close>

lemma numbers_in_the_body:
  "fst (serve (Some ''key'') (analysis_request [''Fever''])
          (Responded (chat_reply 200 ''{\"p\":1e400}''))) =
     \<lparr>status = 200, headers = json_headers, body = JsonBody (JObj [(''p'', JNull)])\<rparr>"
  "fst (serve (Some ''key'') (analysis_request [''Fever''])
          (Responded (chat_reply 200 ''{\"p\":9007199254740993}''))) =
     \<lparr>status = 200, headers = json_headers,
      body = JsonBody (JObj [(''p'', JNum 9007199254740992)])\<rparr>"
proof -
  have m1: "match_braces ''{\"p\":1e400}'' = Some ''{\"p\":1e400}''"
    by (simp add: match_braces_def)
  have m2: "match_braces ''{\"p\":9007199254740993}'' = Some ''{\"p\":9007199254740993}''"
    by (simp add: match_braces_def)
  show "fst (serve (Some ''key'') (analysis_request [''Fever''])
          (Responded (chat_reply 200 ''{\"p\":1e400}''))) =
     \<lparr>status = 200, headers = json_headers, body = JsonBody (JObj [(''p'', JNull)])\<rparr>"
    using m1 JSON_parse_numbers(4)
    by (simp add: serve_def try_block_def prepare_def handle_reply_def response_ok_def
        reply_content_def extract_analysis_def analysis_request_def chat_reply_def
        json_response_def)
  show "fst (serve (Some ''key'') (analysis_request [''Fever''])
          (Responded (chat_reply 200 ''{\"p\":9007199254740993}''))) =
     \<lparr>status = 200, headers = json_headers,
      body = JsonBody (JObj [(''p'', JNum 9007199254740992)])\<rparr>"
    using m2 JSON_parse_rounded_member
    by (simp add: serve_def try_block_def prepare_def handle_reply_def response_ok_def
        reply_content_def extract_analysis_def analysis_request_def chat_reply_def
        json_response_def)
qed

text \<open>
  Claim C2 as stated does not hold: the handler passes on whatever object the reply text parses
  to. Here the model answers with a risk level outside the three values and a probability of 150.
\<close>

theorem shape_counterexample:
  "fst (serve (Some ''key'') (analysis_request [''Fever''])
     (Responded (chat_reply 200
        ''{\"riskLevel\":\"severe\",\"conditions\":[{\"name\":\"Flu\",\"probability\":150}]}''))) =
     \<lparr>status = 200, headers = json_headers,
      body = JsonBody (JObj [(''riskLevel'', JStr ''severe''),
               (''conditions'', JArr [JObj [(''name'', JStr ''Flu''), (''probability'', JNum 150)]])])\<rparr> \<and>
   \<not> spec_assessment_shape (JObj [(''riskLevel'', JStr ''severe''),
               (''conditions'', JArr [JObj [(''name'', JStr ''Flu''), (''probability'', JNum 150)]])])"
  by (simp add: service_eval json_eval spec_assessment_shape_def risk_level_ok_def probability_ok_def)

lemma analysis_request_prepare:
  "prepare key (analysis_request labels) =
     (if key = None \<or> key = Some [] then (Inl (Error ''LOVABLE_API_KEY is not configured''), [])
      else (Inr (map JStr labels), [ConsoleLog ''Analyzing symptoms:'']))"
  by (simp add: prepare_def analysis_request_def)

lemma handle_reply_200:
  assumes "handle_reply r = (Inr resp, evs)" "status resp = 200"
  shows "\<exists>v. body resp = JsonBody v \<and>
           (v = fallback \<or>
            (\<exists>data s m w. up_json r = Some data \<and> reply_content data = Inr (Some (JStr s)) \<and>
               match_braces s = Some m \<and> JSON_parse m = Some w \<and> v = stringified w))"
  using assms
  by (auto simp: handle_reply_def json_response_def extract_analysis_def
      split: if_splits option.splits sum.splits json.splits)

text \<open>
  Claim C2, amended. For every non-empty sequence of symptom labels and every outcome of the
  upstream call, the body of a response with status 200 is either the fixed fallback object,
  which has the shape of the claim, or what \<open>JSON.stringify\<close> writes for the value that
  \<open>JSON.parse\<close> gives for the span of the reply text from its first opening to its last closing
  brace (numbers as doubles, an infinite one written \<open>null\<close>); that value is not validated.
\<close>

theorem success_body_fallback_or_parsed:
  assumes "labels \<noteq> []"
    and "status (fst (serve key (analysis_request labels) upstream)) = 200"
  shows "\<exists>v. body (fst (serve key (analysis_request labels) upstream)) = JsonBody v \<and>
           (v = fallback \<or>
            (\<exists>r data s m w. upstream = Responded r \<and> up_json r = Some data \<and>
               reply_content data = Inr (Some (JStr s)) \<and>
               match_braces s = Some m \<and> JSON_parse m = Some w \<and> v = stringified w)) \<and>
         spec_assessment_shape fallback"
proof -
  have sh: "spec_assessment_shape fallback"
    by (simp add: spec_assessment_shape_def risk_level_ok_def probability_ok_def fallback_def)
  have m: "req_method (analysis_request labels) \<noteq> ''OPTIONS''"
    by (simp add: analysis_request_def)
  show ?thesis
  proof (cases "key = None \<or> key = Some []")
    case True
    with assms(2) m show ?thesis
      by (simp add: serve_def try_block_def analysis_request_prepare error_response_def
          json_response_def)
  next
    case False
    show ?thesis
    proof (cases upstream)
      case Rejected
      with assms(2) m False show ?thesis
        by (simp add: serve_def try_block_def analysis_request_prepare error_response_def)
    next
      case (Responded r)
      obtain res evs where h: "handle_reply r = (res, evs)" by (cases "handle_reply r")
      show ?thesis
      proof (cases res)
        case (Inl e)
        with assms(2) m False Responded h show ?thesis
          by (cases e) (simp_all add: serve_def try_block_def analysis_request_prepare
              error_response_def json_response_def)
      next
        case (Inr resp)
        from False have "prepare key (analysis_request labels) =
            (Inr (map JStr labels), [ConsoleLog ''Analyzing symptoms:''])"
          by (simp only: analysis_request_prepare if_False)
        with m Responded h Inr
        have eq: "fst (serve key (analysis_request labels) upstream) = resp"
          by (simp add: serve_def try_block_def)
        with assms(2) have "status resp = 200" by simp
        from handle_reply_200 [OF h [unfolded Inr] this] eq Responded sh show ?thesis
          by auto
      qed
    qed
  qed
qed


theorem success_body_fallback_or_parsed_witness:
  "[''Fever''] \<noteq> [] \<and>
   status (fst (serve (Some ''key'') (analysis_request [''Fever''])
     (Responded (chat_reply 200 ''{\"riskLevel\":\"low\",\"conditions\":[]}'')))) = 200 \<and>
   (\<exists>v. body (fst (serve (Some ''key'') (analysis_request [''Fever''])
          (Responded (chat_reply 200 ''{\"riskLevel\":\"low\",\"conditions\":[]}'')))) = JsonBody v \<and>
        (v = fallback \<or>
         (\<exists>r data s m w. Responded (chat_reply 200 ''{\"riskLevel\":\"low\",\"conditions\":[]}'') = Responded r \<and>
            up_json r = Some data \<and> reply_content data = Inr (Some (JStr s)) \<and>
            match_braces s = Some m \<and> JSON_parse m = Some w \<and> v = stringified w)))"
proof -
  have h1: "[''Fever''] \<noteq> []" by simp
  have h2: "status (fst (serve (Some ''key'') (analysis_request [''Fever''])
     (Responded (chat_reply 200 ''{\"riskLevel\":\"low\",\"conditions\":[]}'')))) = 200"
    by (simp add: service_eval json_eval)
  from success_body_fallback_or_parsed [OF h1 h2] h1 h2 show ?thesis by blast
qed

lemma match_braces_SomeD:
  assumes "match_braces s = Some m"
  shows "\<exists>pre post. s = pre @ m @ post \<and> CHR ''{'' \<notin> set pre \<and> CHR ''}'' \<notin> set post \<and>
           m \<noteq> [] \<and> hd m = CHR ''{'' \<and> last m = CHR ''}''"
proof -
  let ?t = "dropWhile (\<lambda>c. c \<noteq> CHR ''{'') s"
  let ?pre = "takeWhile (\<lambda>c. c \<noteq> CHR ''{'') s"
  let ?post = "rev (takeWhile (\<lambda>c. c \<noteq> CHR ''}'') (rev ?t))"
  from assms have mem: "CHR ''}'' \<in> set ?t"
    and m: "m = rev (dropWhile (\<lambda>c. c \<noteq> CHR ''}'') (rev ?t))"
    by (auto simp: match_braces_def Let_def split: if_splits)
  have t: "?t = m @ ?post"
    unfolding m by (metis rev_append rev_rev_ident takeWhile_dropWhile_id)
  have s: "s = ?pre @ m @ ?post" using t by (metis takeWhile_dropWhile_id)
  have pre: "CHR ''{'' \<notin> set ?pre" by (auto dest: set_takeWhileD)
  have post: "CHR ''}'' \<notin> set ?post" by (auto dest: set_takeWhileD)
  have dne: "dropWhile (\<lambda>c. c \<noteq> CHR ''}'') (rev ?t) \<noteq> []"
    using mem by (simp add: dropWhile_eq_Nil_conv)
  then have mne: "m \<noteq> []" using m by simp
  have "hd (dropWhile (\<lambda>c. c \<noteq> CHR ''}'') (rev ?t)) = CHR ''}''"
    using dne hd_dropWhile [of "\<lambda>c. c \<noteq> CHR ''}''" "rev ?t"] by simp
  then have lm: "last m = CHR ''}''" using m dne by (simp add: last_rev)
  have tne: "?t \<noteq> []" using mem by (metis list.set(1) empty_iff)
  then have "hd ?t = CHR ''{''" using hd_dropWhile [of "\<lambda>c. c \<noteq> CHR ''{''" s] by simp
  then have hm: "hd m = CHR ''{''" using t mne by (metis hd_append2)
  from s pre post mne hm lm show ?thesis by blast
qed

lemma match_braces_SomeI:
  assumes "s = pre @ m @ post" "CHR ''{'' \<notin> set pre" "CHR ''}'' \<notin> set post"
    "m \<noteq> []" "hd m = CHR ''{''" "last m = CHR ''}''"
  shows "match_braces s = Some m"
proof -
  have t: "dropWhile (\<lambda>c. c \<noteq> CHR ''{'') s = m @ post"
  proof -
    obtain c cs where mc: "m = c # cs" using assms(4) by (cases m) auto
    with assms(5) have "c = CHR ''{''" by simp
    with mc assms(1,2) show ?thesis
      by (auto simp: dropWhile_append3)
  qed
  have mem: "CHR ''}'' \<in> set (m @ post)"
    using assms(4,6) last_in_set [of m] by auto
  have "dropWhile (\<lambda>c. c \<noteq> CHR ''}'') (rev (m @ post)) = rev m"
  proof -
    obtain c cs where mc: "rev m = c # cs" using assms(4) by (cases "rev m") auto
    with assms(4,6) have "c = CHR ''}''" by (metis hd_rev list.sel(1))
    with mc assms(3) show ?thesis
      by (auto simp: dropWhile_append3)
  qed
  with t mem show ?thesis by (simp add: match_braces_def)
qed


text \<open>
  Claim C3 as stated does not hold. The reply below begins with a balanced span that parses to
  an object of the expected shape, and goes on with a remark in braces. The pattern matches up
  to the last closing brace, this longer span is not JSON, and the response is the fallback.
\<close>

theorem greedy_match_counterexample:
  "spec_first_balanced_span greedy_reply =
     Some ''{\"conditions\":[],\"riskLevel\":\"low\",\"recommendations\":[],\"disclaimer\":\"x\"}'' \<and>
   JSON_parse ''{\"conditions\":[],\"riskLevel\":\"low\",\"recommendations\":[],\"disclaimer\":\"x\"}'' =
     Some greedy_reply_object \<and>
   spec_expected_shape greedy_reply_object \<and>
   match_braces greedy_reply =
     Some ''{\"conditions\":[],\"riskLevel\":\"low\",\"recommendations\":[],\"disclaimer\":\"x\"} (see {notes}'' \<and>
   fst (serve (Some ''key'') (analysis_request [''Fever'']) (Responded (chat_reply 200 greedy_reply))) =
     \<lparr>status = 200, headers = json_headers, body = JsonBody fallback\<rparr> \<and>
   fallback \<noteq> greedy_reply_object"
proof -
  have 1: "spec_first_balanced_span greedy_reply =
     Some ''{\"conditions\":[],\"riskLevel\":\"low\",\"recommendations\":[],\"disclaimer\":\"x\"}''"
    by (simp add: greedy_reply_def)
  have 2: "JSON_parse ''{\"conditions\":[],\"riskLevel\":\"low\",\"recommendations\":[],\"disclaimer\":\"x\"}'' =
     Some greedy_reply_object"
    by (simp add: json_eval greedy_reply_object_def)
  have 3: "spec_expected_shape greedy_reply_object"
    by (simp add: spec_expected_shape_def risk_level_ok_def is_string_def greedy_reply_object_def)
  have 4: "match_braces greedy_reply =
     Some ''{\"conditions\":[],\"riskLevel\":\"low\",\"recommendations\":[],\"disclaimer\":\"x\"} (see {notes}''"
    by (simp add: match_braces_def greedy_reply_def)
  have 5: "JSON_parse ''{\"conditions\":[],\"riskLevel\":\"low\",\"recommendations\":[],\"disclaimer\":\"x\"} (see {notes}'' = None"
    by (simp add: json_eval)
  have 6: "fst (serve (Some ''key'') (analysis_request [''Fever''])
             (Responded (chat_reply 200 greedy_reply))) =
     \<lparr>status = 200, headers = json_headers, body = JsonBody fallback\<rparr>"
    using 4 5
    by (simp add: serve_def try_block_def prepare_def handle_reply_def response_ok_def
        reply_content_def extract_analysis_def analysis_request_def chat_reply_def
        json_response_def)
  have 7: "fallback \<noteq> greedy_reply_object"
    by (simp add: fallback_def greedy_reply_object_def)
  from 1 2 3 4 6 7 show ?thesis by blast
qed

text \<open>
  Claim C3, amended. On upstream success with a text reply, the span taken from the reply runs
  from its first opening brace to its last closing brace. Whenever that span parses as JSON, the
  body of the response is what \<open>JSON.stringify\<close> writes for the parsed value (the value itself
  but for an infinite number, written \<open>null\<close>), with status 200; when there is no such span or
  it does not parse, the body is the fallback object.
\<close>

theorem greedy_span_decides:
  assumes "Fetch xs \<in> set (snd (serve key req (Responded r)))"
    and "response_ok r" and "up_json r = Some data"
    and "reply_content data = Inr (Some (JStr s))"
  shows "(\<forall>m. match_braces s = Some m \<longleftrightarrow>
            (\<exists>pre post. s = pre @ m @ post \<and> CHR ''{'' \<notin> set pre \<and> CHR ''}'' \<notin> set post \<and>
               m \<noteq> [] \<and> hd m = CHR ''{'' \<and> last m = CHR ''}'')) \<and>
         (\<forall>m v. match_braces s = Some m \<longrightarrow> JSON_parse m = Some v \<longrightarrow>
            fst (serve key req (Responded r)) =
              \<lparr>status = 200, headers = json_headers, body = JsonBody (stringified v)\<rparr>) \<and>
         (match_braces s = None \<or> (\<exists>m. match_braces s = Some m \<and> JSON_parse m = None) \<longrightarrow>
            fst (serve key req (Responded r)) =
              \<lparr>status = 200, headers = json_headers, body = JsonBody fallback\<rparr>)"
proof -
  have a: "\<forall>m. match_braces s = Some m \<longleftrightarrow>
            (\<exists>pre post. s = pre @ m @ post \<and> CHR ''{'' \<notin> set pre \<and> CHR ''}'' \<notin> set post \<and>
               m \<noteq> [] \<and> hd m = CHR ''{'' \<and> last m = CHR ''}'')"
    using match_braces_SomeD match_braces_SomeI by blast
  have b: "\<forall>m v. match_braces s = Some m \<longrightarrow> JSON_parse m = Some v \<longrightarrow>
            fst (serve key req (Responded r)) =
              \<lparr>status = 200, headers = json_headers, body = JsonBody (stringified v)\<rparr>"
    using serve_reply [OF assms(1)] assms(2-4)
    by (simp add: handle_reply_def extract_analysis_def json_response_def)
  have c: "match_braces s = None \<or> (\<exists>m. match_braces s = Some m \<and> JSON_parse m = None) \<longrightarrow>
            fst (serve key req (Responded r)) =
              \<lparr>status = 200, headers = json_headers, body = JsonBody fallback\<rparr>"
    using serve_reply [OF assms(1)] assms(2-4)
    by (auto simp: handle_reply_def extract_analysis_def json_response_def)
  from a b c show ?thesis by blast
qed

theorem greedy_span_decides_witness:
  "Fetch [JStr ''Fever'']
     \<in> set (snd (serve (Some ''key'') (analysis_request [''Fever''])
                 (Responded (chat_reply 200 ''Result: {\"riskLevel\":\"low\"} (end)'')))) \<and>
   response_ok (chat_reply 200 ''Result: {\"riskLevel\":\"low\"} (end)'') \<and>
   reply_content (the (up_json (chat_reply 200 ''Result: {\"riskLevel\":\"low\"} (end)''))) =
     Inr (Some (JStr ''Result: {\"riskLevel\":\"low\"} (end)'')) \<and>
   match_braces ''Result: {\"riskLevel\":\"low\"} (end)'' = Some ''{\"riskLevel\":\"low\"}'' \<and>
   JSON_parse ''{\"riskLevel\":\"low\"}'' = Some (JObj [(''riskLevel'', JStr ''low'')]) \<and>
   fst (serve (Some ''key'') (analysis_request [''Fever''])
          (Responded (chat_reply 200 ''Result: {\"riskLevel\":\"low\"} (end)''))) =
     \<lparr>status = 200, headers = json_headers, body = JsonBody (JObj [(''riskLevel'', JStr ''low'')])\<rparr> \<and>
   match_braces ''No braces here'' = None \<and>
   fst (serve (Some ''key'') (analysis_request [''Fever''])
          (Responded (chat_reply 200 ''No braces here''))) =
     \<lparr>status = 200, headers = json_headers, body = JsonBody fallback\<rparr>"
proof -
  let ?s = "''Result: {\"riskLevel\":\"low\"} (end)''"
  let ?r = "chat_reply 200 ?s"
  let ?t = "''No braces here''"
  have h1: "Fetch [JStr ''Fever'']
     \<in> set (snd (serve (Some ''key'') (analysis_request [''Fever'']) (Responded u)))" for u
    by (simp add: fetch_iff prepare_def analysis_request_def)
  have h2: "response_ok (chat_reply 200 x)" for x by (simp add: response_ok_def chat_reply_def)
  have h3: "up_json (chat_reply 200 x) = Some (the (up_json (chat_reply 200 x)))" for x
    by (simp add: chat_reply_def)
  have h4: "reply_content (the (up_json (chat_reply 200 x))) = Inr (Some (JStr x))" for x
    by (simp add: chat_reply_def reply_content_def)
  have h5: "match_braces ?s = Some ''{\"riskLevel\":\"low\"}''"
    by (simp add: match_braces_def)
  have h6: "JSON_parse ''{\"riskLevel\":\"low\"}'' = Some (JObj [(''riskLevel'', JStr ''low'')])"
    by (simp add: json_eval)
  have h7: "match_braces ?t = None" by (simp add: match_braces_def)
  from greedy_span_decides [OF h1 h2 h3 h4, of ?s]
  have "\<forall>m v. match_braces ?s = Some m \<longrightarrow> JSON_parse m = Some v \<longrightarrow>
          fst (serve (Some ''key'') (analysis_request [''Fever'']) (Responded ?r)) =
            \<lparr>status = 200, headers = json_headers, body = JsonBody (stringified v)\<rparr>"
    by (elim conjE)
  from this [rule_format, OF h5 h6]
  have a: "fst (serve (Some ''key'') (analysis_request [''Fever'']) (Responded ?r)) =
     \<lparr>status = 200, headers = json_headers, body = JsonBody (JObj [(''riskLevel'', JStr ''low'')])\<rparr>"
    by simp
  from greedy_span_decides [OF h1 h2 h3 h4, of ?t]
  have "match_braces ?t = None \<or> (\<exists>m. match_braces ?t = Some m \<and> JSON_parse m = None) \<longrightarrow>
          fst (serve (Some ''key'') (analysis_request [''Fever'']) (Responded (chat_reply 200 ?t))) =
            \<lparr>status = 200, headers = json_headers, body = JsonBody fallback\<rparr>"
    by (elim conjE)
  with h7
  have b: "fst (serve (Some ''key'') (analysis_request [''Fever''])
             (Responded (chat_reply 200 ?t))) =
     \<lparr>status = 200, headers = json_headers, body = JsonBody fallback\<rparr>"
    by (elim impE) (rule disjI1)
  from h1 [of ?r] h2 [of ?s] h4 [of ?s] h5 h6 h7 a b show ?thesis by blast
qed

section \<open>The Intake Handler: properties\<close>

text \<open>
  Claim C5 as stated does not hold for every submission: when nobody is signed in, the handler
  goes to the sign-in page and inserts nothing.
\<close>

theorem signed_out_submission_counterexample:
  "handleSubmit [''Fever'', ''Cough''] [] signed_out =
     [PreventDefault, SetLoading True, Navigate ''/auth'', SetLoading False] \<and>
   filter is_entry_insert (handleSubmit [''Fever'', ''Cough''] [] signed_out) = []"
  by (simp add: handleSubmit_def signed_out_def)

lemma save_assessment_events:
  "save_assessment eid u a failure =
     (let row = \<lparr>rai_symptom_entry_id = eid, rai_user_id = user_id u, rai_predictions = a,
                 rai_risk_level = js_or (member a ''riskLevel'') (JStr ''medium'')\<rparr>
      in case insert_risk_assessment row failure of
           None \<Rightarrow> [InsertRiskAssessment row None, SetAnalysisResult a]
         | Some e \<Rightarrow> [InsertRiskAssessment row (Some e), UiConsoleError ''Assessment error:'',
                      SetAnalysisResult a])"
  by (simp add: save_assessment_def Let_def split: option.splits)

text \<open>
  Claim C5, amended. For every submission of a signed-in user with a non-empty selection, and
  whatever the function call and the second insert answer, the handler issues exactly one
  \<open>symptom_entries\<close> insert, holding exactly the selected labels, and issues it before any call
  of the Analysis Service; if that insert fails, the service is never called, and if it
  succeeds, the service is called with the selected labels.
\<close>

theorem entry_inserted_before_analysis:
  assumes "selectedSymptoms \<noteq> []" and "current_user w = Some u"
  shows "\<exists>rest. handleSubmit selectedSymptoms notes w =
             [PreventDefault, SetLoading True,
              InsertSymptomEntry
                \<lparr>sei_user_id = user_id u, sei_symptoms = selectedSymptoms,
                 sei_notes = (if notes = [] then None else Some notes)\<rparr>
                (entry_insert_result w)] @ rest \<and>
           (\<forall>e \<in> set rest. \<not> is_entry_insert e) \<and>
           ((\<exists>err. entry_insert_result w = Inl err) \<longrightarrow> (\<forall>e \<in> set rest. \<not> is_invoke e)) \<and>
           ((\<exists>eid. entry_insert_result w = Inr eid) \<longrightarrow>
              InvokeAnalysis selectedSymptoms \<in> set rest)"
  using assms
  by (auto simp: handleSubmit_def Let_def catch_submit_def save_assessment_events
      split: sum.splits option.splits)

theorem entry_inserted_before_analysis_witness:
  "[''Fever'', ''Cough''] \<noteq> [] \<and>
   current_user (signed_in fallback None) = Some \<lparr>user_id = ''user-1''\<rparr> \<and>
   (\<exists>rest. handleSubmit [''Fever'', ''Cough''] ''since monday'' (signed_in fallback None) =
             [PreventDefault, SetLoading True,
              InsertSymptomEntry
                \<lparr>sei_user_id = ''user-1'', sei_symptoms = [''Fever'', ''Cough''],
                 sei_notes = Some ''since monday''\<rparr>
                (Inr ''entry-1'')] @ rest \<and>
           (\<forall>e \<in> set rest. \<not> is_entry_insert e) \<and>
           InvokeAnalysis [''Fever'', ''Cough''] \<in> set rest) \<and>
   current_user insert_refused = Some \<lparr>user_id = ''user-1''\<rparr> \<and>
   entry_insert_result insert_refused = Inl (ApiError ''permission denied'') \<and>
   (\<exists>rest. handleSubmit [''Fever'', ''Cough''] [] insert_refused =
             [PreventDefault, SetLoading True,
              InsertSymptomEntry
                \<lparr>sei_user_id = ''user-1'', sei_symptoms = [''Fever'', ''Cough''],
                 sei_notes = None\<rparr>
                (Inl (ApiError ''permission denied''))] @ rest \<and>
           (\<forall>e \<in> set rest. \<not> is_entry_insert e) \<and>
           (\<forall>e \<in> set rest. \<not> is_invoke e))"
proof -
  have h1: "[''Fever'', ''Cough''] \<noteq> []" by simp
  have h2: "current_user (signed_in fallback None) = Some \<lparr>user_id = ''user-1''\<rparr>"
    by (simp add: signed_in_def)
  have h3: "entry_insert_result (signed_in fallback None) = Inr ''entry-1''"
    by (simp add: signed_in_def)
  have h4: "current_user insert_refused = Some \<lparr>user_id = ''user-1''\<rparr>"
    by (simp add: insert_refused_def)
  have h5: "entry_insert_result insert_refused = Inl (ApiError ''permission denied'')"
    by (simp add: insert_refused_def)
  have a: "\<exists>rest. handleSubmit [''Fever'', ''Cough''] ''since monday'' (signed_in fallback None) =
             [PreventDefault, SetLoading True,
              InsertSymptomEntry
                \<lparr>sei_user_id = ''user-1'', sei_symptoms = [''Fever'', ''Cough''],
                 sei_notes = Some ''since monday''\<rparr>
                (Inr ''entry-1'')] @ rest \<and>
           (\<forall>e \<in> set rest. \<not> is_entry_insert e) \<and>
           InvokeAnalysis [''Fever'', ''Cough''] \<in> set rest"
    using entry_inserted_before_analysis [OF h1 h2, of "''since monday''"] h3 by auto
  have b: "\<exists>rest. handleSubmit [''Fever'', ''Cough''] [] insert_refused =
             [PreventDefault, SetLoading True,
              InsertSymptomEntry
                \<lparr>sei_user_id = ''user-1'', sei_symptoms = [''Fever'', ''Cough''],
                 sei_notes = None\<rparr>
                (Inl (ApiError ''permission denied''))] @ rest \<and>
           (\<forall>e \<in> set rest. \<not> is_entry_insert e) \<and>
           (\<forall>e \<in> set rest. \<not> is_invoke e)"
    using entry_inserted_before_analysis [OF h1 h4, of "[]"] h5 by auto
  from h1 h2 h4 h5 a b show ?thesis by blast
qed

lemma assessment_insert_iff:
  "InsertRiskAssessment row outcome \<in> set (handleSubmit sel notes w) \<longleftrightarrow>
     sel \<noteq> [] \<and>
     (\<exists>u eid. current_user w = Some u \<and> entry_insert_result w = Inr eid \<and>
        analysis_error w = None \<and> truthy_json (analysis_data w) \<and>
        row = \<lparr>rai_symptom_entry_id = eid, rai_user_id = user_id u,
               rai_predictions = analysis_data w,
               rai_risk_level = js_or (member (analysis_data w) ''riskLevel'') (JStr ''medium'')\<rparr> \<and>
        outcome = insert_risk_assessment row (assessment_failure w))"
  by (auto simp: handleSubmit_def Let_def catch_submit_def save_assessment_events
      split: sum.splits option.splits)

text \<open>
  Claim C7. When the \<open>risk_assessments\<close> insert was issued and failed, the run of the handler is
  the one below: the error goes to the console, no error toast is shown (the toast is the one of
  success), and the analysis is stored in the state of the page for display.
\<close>

theorem assessment_failure_logged_not_surfaced:
  assumes "InsertRiskAssessment row (Some err) \<in> set (handleSubmit sel notes w)"
  shows "(\<exists>entry. handleSubmit sel notes w =
            [PreventDefault, SetLoading True,
             InsertSymptomEntry entry (entry_insert_result w),
             InvokeAnalysis sel,
             InsertRiskAssessment row (Some err),
             UiConsoleError ''Assessment error:'',
             SetAnalysisResult (analysis_data w),
             ToastSuccess ''Symptoms logged successfully!'',
             SetLoading False]) \<and>
         UiConsoleError ''Assessment error:'' \<in> set (handleSubmit sel notes w) \<and>
         (\<forall>m. ToastError m \<notin> set (handleSubmit sel notes w)) \<and>
         SetAnalysisResult (analysis_data w) \<in> set (handleSubmit sel notes w)"
proof -
  from assms obtain u eid where h: "sel \<noteq> []" "current_user w = Some u"
    "entry_insert_result w = Inr eid" "analysis_error w = None"
    "truthy_json (analysis_data w)"
    "row = \<lparr>rai_symptom_entry_id = eid, rai_user_id = user_id u,
            rai_predictions = analysis_data w,
            rai_risk_level = js_or (member (analysis_data w) ''riskLevel'') (JStr ''medium'')\<rparr>"
    "Some err = insert_risk_assessment row (assessment_failure w)"
    unfolding assessment_insert_iff by blast
  have tr: "handleSubmit sel notes w =
            [PreventDefault, SetLoading True,
             InsertSymptomEntry \<lparr>sei_user_id = user_id u, sei_symptoms = sel,
                 sei_notes = (if notes = [] then None else Some notes)\<rparr> (entry_insert_result w),
             InvokeAnalysis sel,
             InsertRiskAssessment row (Some err),
             UiConsoleError ''Assessment error:'',
             SetAnalysisResult (analysis_data w),
             ToastSuccess ''Symptoms logged successfully!'',
             SetLoading False]"
    using h(1-5) h(7) [symmetric] unfolding h(6)
    by (simp add: handleSubmit_def Let_def save_assessment_events)
  show ?thesis
    by (rule conjI, rule exI, rule tr) (simp add: tr)
qed

theorem assessment_failure_logged_not_surfaced_witness:
  "InsertRiskAssessment
     \<lparr>rai_symptom_entry_id = ''entry-1'', rai_user_id = ''user-1'', rai_predictions = fallback,
      rai_risk_level = JStr ''medium''\<rparr> (Some (ApiError ''connection lost''))
     \<in> set (handleSubmit [''Fever''] [] (signed_in fallback (Some (ApiError ''connection lost'')))) \<and>
   UiConsoleError ''Assessment error:''
     \<in> set (handleSubmit [''Fever''] [] (signed_in fallback (Some (ApiError ''connection lost'')))) \<and>
   (\<forall>m. ToastError m
     \<notin> set (handleSubmit [''Fever''] [] (signed_in fallback (Some (ApiError ''connection lost''))))) \<and>
   SetAnalysisResult fallback
     \<in> set (handleSubmit [''Fever''] [] (signed_in fallback (Some (ApiError ''connection lost''))))"
proof -
  let ?w = "signed_in fallback (Some (ApiError ''connection lost''))"
  have h: "InsertRiskAssessment
     \<lparr>rai_symptom_entry_id = ''entry-1'', rai_user_id = ''user-1'', rai_predictions = fallback,
      rai_risk_level = JStr ''medium''\<rparr> (Some (ApiError ''connection lost''))
     \<in> set (handleSubmit [''Fever''] [] ?w)"
    by (simp add: intake_eval fallback_def)
  have a: "analysis_data ?w = fallback" by (simp add: signed_in_def)
  from assessment_failure_logged_not_surfaced [OF h] h a show ?thesis by simp
qed

text \<open>
  Claim C10. The row sent to \<open>risk_assessments\<close> has as \<open>risk_level\<close> the \<open>riskLevel\<close> of the
  analysis, and \<open>medium\<close> whenever that member is missing or the empty string; a non-empty string
  is passed on as it is. The value sent is never falsy, every row that the table accepts has
  a non-empty string as \<open>risk_level\<close>, and a row made from an analysis without \<open>riskLevel\<close> is
  accepted by the constraint of the table, with \<open>medium\<close>.
\<close>

theorem persisted_risk_level:
  assumes "InsertRiskAssessment row outcome \<in> set (handleSubmit sel notes w)"
  shows "rai_risk_level row = js_or (member (analysis_data w) ''riskLevel'') (JStr ''medium'') \<and>
         (member (analysis_data w) ''riskLevel'' = None \<or>
          member (analysis_data w) ''riskLevel'' = Some (JStr []) \<longrightarrow>
            rai_risk_level row = JStr ''medium'') \<and>
         (\<forall>s. member (analysis_data w) ''riskLevel'' = Some (JStr s) \<longrightarrow> s \<noteq> [] \<longrightarrow>
            rai_risk_level row = JStr s) \<and>
         truthy_json (rai_risk_level row) \<and>
         (outcome = None \<longrightarrow> (\<exists>s. rai_risk_level row = JStr s \<and> s \<noteq> [])) \<and>
         (member (analysis_data w) ''riskLevel'' = None \<or>
          member (analysis_data w) ''riskLevel'' = Some (JStr []) \<longrightarrow>
            assessment_failure w = None \<longrightarrow> outcome = None)"
proof -
  from assms have r: "rai_risk_level row = js_or (member (analysis_data w) ''riskLevel'') (JStr ''medium'')"
    and o: "outcome = insert_risk_assessment row (assessment_failure w)"
    unfolding assessment_insert_iff by auto
  have t: "truthy_json (rai_risk_level row)"
    unfolding r by (simp add: js_or_def split: option.splits)
  have p: "outcome = None \<longrightarrow> (\<exists>s. rai_risk_level row = JStr s \<and> s \<noteq> [])"
    unfolding o by (auto simp: insert_risk_assessment_def risk_level_check_def split: option.splits if_splits)
  have a: "member (analysis_data w) ''riskLevel'' = None \<or>
          member (analysis_data w) ''riskLevel'' = Some (JStr []) \<longrightarrow>
            assessment_failure w = None \<longrightarrow> outcome = None"
    unfolding o by (auto simp: insert_risk_assessment_def risk_level_check_def r js_or_def)
  from r t p a show ?thesis by (auto simp: js_or_def)
qed


theorem persisted_risk_level_witness:
  "InsertRiskAssessment
     \<lparr>rai_symptom_entry_id = ''entry-1'', rai_user_id = ''user-1'',
      rai_predictions = JObj [(''conditions'', JArr [])], rai_risk_level = JStr ''medium''\<rparr> None
     \<in> set (handleSubmit [''Fever''] [] (signed_in (JObj [(''conditions'', JArr [])]) None)) \<and>
   member (analysis_data (signed_in (JObj [(''conditions'', JArr [])]) None)) ''riskLevel'' = None \<and>
   (\<exists>s. rai_risk_level
          \<lparr>rai_symptom_entry_id = ''entry-1'', rai_user_id = ''user-1'',
           rai_predictions = JObj [(''conditions'', JArr [])], rai_risk_level = JStr ''medium''\<rparr> =
          JStr s \<and> s \<noteq> [])"
proof -
  let ?w = "signed_in (JObj [(''conditions'', JArr [])]) None"
  have h: "InsertRiskAssessment
     \<lparr>rai_symptom_entry_id = ''entry-1'', rai_user_id = ''user-1'',
      rai_predictions = JObj [(''conditions'', JArr [])], rai_risk_level = JStr ''medium''\<rparr> None
     \<in> set (handleSubmit [''Fever''] [] ?w)"
    by (simp add: intake_eval)
  have a: "member (analysis_data ?w) ''riskLevel'' = None" by (simp add: signed_in_def)
  from persisted_risk_level [OF h] h a show ?thesis by blast
qed

section \<open>The dashboard: properties\<close>

lemma recent10_length: "length (recent10 c xs) \<le> 10"
  by (simp add: recent10_def)

lemma recent10_sorted: "sorted_wrt (\<lambda>a b. c b \<le> c a) (recent10 c xs)"
proof -
  have "sorted (map c (sort_key c xs))" by (rule sorted_sort_key)
  then have "sorted_wrt (\<lambda>a b. c a \<le> c b) (sort_key c xs)"
    by (simp add: sorted_wrt_map)
  then have "sorted_wrt (\<lambda>a b. c b \<le> c a) (rev (sort_key c xs))"
    by (simp add: sorted_wrt_rev)
  then show ?thesis unfolding recent10_def by (rule sorted_wrt_take)
qed

lemma recent10_split:
  "\<exists>older. mset (recent10 c xs @ older) = mset xs \<and>
     (\<forall>y \<in> set (recent10 c xs). \<forall>x \<in> set older. c x \<le> c y) \<and>
     (length xs \<le> 10 \<longrightarrow> older = [])"
proof -
  let ?all = "rev (sort_key c xs)"
  let ?older = "drop 10 ?all"
  have "sorted_wrt (\<lambda>a b. c b \<le> c a) ?all"
    using sorted_sort_key [of c xs] by (simp add: sorted_wrt_map sorted_wrt_rev)
  then have "sorted_wrt (\<lambda>a b. c b \<le> c a) (take 10 ?all @ ?older)" by simp
  then have 1: "\<forall>y \<in> set (recent10 c xs). \<forall>x \<in> set ?older. c x \<le> c y"
    unfolding recent10_def sorted_wrt_append by blast
  have 2: "mset (recent10 c xs @ ?older) = mset xs"
    unfolding recent10_def by simp
  have 3: "length xs \<le> 10 \<longrightarrow> ?older = []" by simp
  from 1 2 3 show ?thesis by blast
qed

text \<open>
  Claim C9. After the load the page holds at most ten symptom entries and at most ten risk
  assessments, so the two totals are at most ten and the export has at most ten rows after its
  header. When both queries succeed, what is held are the first ten rows of each table in
  descending order of creation time: the rows come from the table, no row left out is newer
  than a row held, and no row is left out of a table of at most ten.
\<close>

theorem dashboard_loads_ten_most_recent:
  fixes toLocaleDateString :: "nat \<Rightarrow> string"
  shows "(let st = fst (fetchDashboardData usr fail_entries fail_assessments entries_table
                     assessments_table initial_dashboard)
     in total_entries st \<le> 10 \<and> total_assessments st \<le> 10 \<and>
        length (csv_lines toLocaleDateString st) \<le> 11 \<and>
        (usr \<noteq> None \<longrightarrow> fail_entries = None \<longrightarrow> fail_assessments = None \<longrightarrow>
           symptomEntries st = map typed_entry (recent10 row_created_at entries_table) \<and>
           riskAssessments st = recent10 ra_created_at assessments_table)) \<and>
   sorted_wrt (\<lambda>a b. row_created_at b \<le> row_created_at a) (recent10 row_created_at entries_table) \<and>
   sorted_wrt (\<lambda>a b. ra_created_at b \<le> ra_created_at a) (recent10 ra_created_at assessments_table) \<and>
   (\<exists>older. mset (recent10 row_created_at entries_table @ older) = mset entries_table \<and>
      (\<forall>y \<in> set (recent10 row_created_at entries_table). \<forall>x \<in> set older.
         row_created_at x \<le> row_created_at y) \<and>
      (length entries_table \<le> 10 \<longrightarrow> older = [])) \<and>
   (\<exists>older. mset (recent10 ra_created_at assessments_table @ older) = mset assessments_table \<and>
      (\<forall>y \<in> set (recent10 ra_created_at assessments_table). \<forall>x \<in> set older.
         ra_created_at x \<le> ra_created_at y) \<and>
      (length assessments_table \<le> 10 \<longrightarrow> older = []))"
proof -
  let ?st = "fst (fetchDashboardData usr fail_entries fail_assessments entries_table
                     assessments_table initial_dashboard)"
  have e: "length (symptomEntries ?st) \<le> 10"
    using recent10_length [of row_created_at entries_table]
    by (auto simp: fetchDashboardData_def run_query_def initial_dashboard_def Let_def
        split: option.splits)
  have a: "length (riskAssessments ?st) \<le> 10"
    using recent10_length [of ra_created_at assessments_table]
    by (auto simp: fetchDashboardData_def run_query_def initial_dashboard_def Let_def
        split: option.splits)
  have l: "usr \<noteq> None \<longrightarrow> fail_entries = None \<longrightarrow> fail_assessments = None \<longrightarrow>
           symptomEntries ?st = map typed_entry (recent10 row_created_at entries_table) \<and>
           riskAssessments ?st = recent10 ra_created_at assessments_table"
    by (auto simp: fetchDashboardData_def run_query_def Let_def)
  have x: "length (csv_lines toLocaleDateString ?st) \<le> 11"
    using e by (simp add: csv_lines_def)
  from e a l x recent10_sorted [of row_created_at entries_table]
    recent10_sorted [of ra_created_at assessments_table]
    recent10_split [of row_created_at entries_table]
    recent10_split [of ra_created_at assessments_table]
  show ?thesis unfolding Let_def total_entries_def total_assessments_def by blast
qed


theorem dashboard_loads_ten_most_recent_witness:
  "Some \<lparr>user_id = ''user-1''\<rparr> \<noteq> None \<and> length sample_entries = 12 \<and>
   symptomEntries (fst (fetchDashboardData (Some \<lparr>user_id = ''user-1''\<rparr>) None None
                          sample_entries [] initial_dashboard)) = sample_loaded \<and>
   total_entries (fst (fetchDashboardData (Some \<lparr>user_id = ''user-1''\<rparr>) None None
                         sample_entries [] initial_dashboard)) = 10"
proof -
  have l: "map typed_entry (recent10 row_created_at sample_entries) = sample_loaded"
    by (simp add: sample_entries_def sample_loaded_def recent10_def typed_entry_def)
  have n: "length sample_loaded = 10" by (simp add: sample_loaded_def)
  have m: "length sample_entries = 12" by (simp add: sample_entries_def)
  from dashboard_loads_ten_most_recent [of "Some \<lparr>user_id = ''user-1''\<rparr>" None None sample_entries "[]"
      "\<lambda>t. []"] l n m
  show ?thesis by (simp add: Let_def total_entries_def)
qed













end
